theory Spec2Isabelle
  imports Complex_Main
begin

section \<open>JavaScript values\<close>

text \<open>
  The payloads handled by \<^verbatim>\<open>functions/utils.js\<close> and \<^verbatim>\<open>functions/mcp-client.js\<close> are
  decoded JSON. A value is one of the JSON kinds, or \<^verbatim>\<open>undefined\<close>, which is what reading
  an absent property yields, or a member that every object inherits from
  \<^verbatim>\<open>Object.prototype\<close>: \<open>JBuiltin k\<close> is the value of \<^verbatim>\<open>({})[k]\<close> for such a name
  \<open>k\<close>, a built-in function or, for \<^verbatim>\<open>__proto__\<close>, the prototype object itself.

  Numbers are exact rationals extended with the two infinities and NaN. Rounding, overflow
  and the sign of zero of IEEE doubles are not modelled, so a statement about a sum is
  made with the model's operators \<open>jadd\<close> and \<open>jsub\<close>, in the order in which the code
  applies \<^verbatim>\<open>+\<close> and \<^verbatim>\<open>-\<close>.
\<close>

datatype jsnum = Fin rat | PInf | NInf | NaN

datatype jsval =
    JUndefined
  | JNull
  | JBool bool
  | JNum jsnum
  | JStr string
  | JArr "jsval list"
  | JObj "(string \<times> jsval) list"
  | JBuiltin string

text \<open>
  Exceptions. A \<^verbatim>\<open>TypeError\<close> carries the name of the property or method whose access
  failed, a \<^verbatim>\<open>RangeError\<close> the rejected argument (the engine's message text is not
  modelled beyond that). The others are \<^verbatim>\<open>Error\<close> objects, told apart by how their
  message is built:
  \<^item> \<open>Error m\<close> is \<^verbatim>\<open>new Error(m)\<close> for a string literal \<open>m\<close>;
  \<^item> \<open>RemoteError v\<close> is \<^verbatim>\<open>new Error(v)\<close> for a value \<open>v\<close> read from a response;
  \<^item> \<open>AxiosError m\<close> is the rejection of a transport call, with message \<open>m\<close>;
  \<^item> \<open>ToolCallFailed e\<close> is \<^verbatim>\<open>new Error(`MCP tool call failed: ${e.message}`)\<close>.
\<close>

datatype exn =
    TypeError string
  | RangeError string
  | Error string
  | RemoteError jsval
  | AxiosError string
  | ToolCallFailed exn

subsection \<open>Arithmetic on numbers\<close>

fun jneg :: "jsnum \<Rightarrow> jsnum" where
  "jneg (Fin a) = Fin (- a)"
| "jneg PInf = NInf"
| "jneg NInf = PInf"
| "jneg NaN = NaN"

fun jadd :: "jsnum \<Rightarrow> jsnum \<Rightarrow> jsnum" where
  "jadd (Fin a) (Fin b) = Fin (a + b)"
| "jadd NaN _ = NaN"
| "jadd _ NaN = NaN"
| "jadd PInf NInf = NaN"
| "jadd NInf PInf = NaN"
| "jadd PInf _ = PInf"
| "jadd NInf _ = NInf"
| "jadd _ PInf = PInf"
| "jadd _ NInf = NInf"

definition jsub :: "jsnum \<Rightarrow> jsnum \<Rightarrow> jsnum" where
  "jsub a b = jadd a (jneg b)"

fun jmul :: "jsnum \<Rightarrow> jsnum \<Rightarrow> jsnum" where
  "jmul (Fin a) (Fin b) = Fin (a * b)"
| "jmul NaN _ = NaN"
| "jmul _ NaN = NaN"
| "jmul PInf (Fin b) = (if b = 0 then NaN else if 0 < b then PInf else NInf)"
| "jmul NInf (Fin b) = (if b = 0 then NaN else if 0 < b then NInf else PInf)"
| "jmul (Fin a) PInf = (if a = 0 then NaN else if 0 < a then PInf else NInf)"
| "jmul (Fin a) NInf = (if a = 0 then NaN else if 0 < a then NInf else PInf)"
| "jmul PInf PInf = PInf"
| "jmul NInf NInf = PInf"
| "jmul PInf NInf = NInf"
| "jmul NInf PInf = NInf"

fun jdiv :: "jsnum \<Rightarrow> jsnum \<Rightarrow> jsnum" where
  "jdiv (Fin a) (Fin b) =
     (if b = 0 then (if a = 0 then NaN else if 0 < a then PInf else NInf)
      else Fin (a / b))"
| "jdiv NaN _ = NaN"
| "jdiv _ NaN = NaN"
| "jdiv (Fin a) _ = Fin 0"
| "jdiv PInf (Fin b) = (if b < 0 then NInf else PInf)"
| "jdiv NInf (Fin b) = (if b < 0 then PInf else NInf)"
| "jdiv _ _ = NaN"

text \<open>The relational operator \<^verbatim>\<open>a > b\<close> on two numbers: false whenever NaN is involved.\<close>

fun jgt :: "jsnum \<Rightarrow> jsnum \<Rightarrow> bool" where
  "jgt (Fin a) (Fin b) = (b < a)"
| "jgt NaN _ = False"
| "jgt _ NaN = False"
| "jgt PInf PInf = False"
| "jgt PInf _ = True"
| "jgt _ PInf = False"
| "jgt NInf _ = False"
| "jgt _ NInf = True"

subsection \<open>Truthiness, property access, logical or\<close>

fun num_truthy :: "jsnum \<Rightarrow> bool" where
  "num_truthy (Fin a) = (a \<noteq> 0)"
| "num_truthy NaN = False"
| "num_truthy _ = True"

fun truthy :: "jsval \<Rightarrow> bool" where
  "truthy JUndefined = False"
| "truthy JNull = False"
| "truthy (JBool b) = b"
| "truthy (JNum n) = num_truthy n"
| "truthy (JStr s) = (s \<noteq> [])"
| "truthy (JArr _) = True"
| "truthy (JObj _) = True"
| "truthy (JBuiltin _) = True"

fun nullish :: "jsval \<Rightarrow> bool" where
  "nullish JUndefined = True"
| "nullish JNull = True"
| "nullish _ = False"

text \<open>
  The names of the members of \<^verbatim>\<open>Object.prototype\<close>. An object that has no own property
  of such a name answers a read of it with the inherited member.
\<close>

definition proto_names :: "string list" where
  "proto_names =
     [''constructor'', ''__defineGetter__'', ''__defineSetter__'', ''hasOwnProperty'',
      ''__lookupGetter__'', ''__lookupSetter__'', ''isPrototypeOf'', ''propertyIsEnumerable'',
      ''toString'', ''valueOf'', ''__proto__'', ''toLocaleString'']"

definition inherited :: "string \<Rightarrow> jsval" where
  "inherited k = (if k \<in> set proto_names then JBuiltin k else JUndefined)"

text \<open>
  \<^verbatim>\<open>v?.k\<close> and \<^verbatim>\<open>v?.[k]\<close>: the property \<^verbatim>\<open>k\<close> of \<^verbatim>\<open>v\<close>, or \<^verbatim>\<open>undefined\<close> when
  \<^verbatim>\<open>v\<close> is \<^verbatim>\<open>null\<close> or \<^verbatim>\<open>undefined\<close>. An object is an association list of its own
  properties, behind which stands \<^verbatim>\<open>Object.prototype\<close>. Of arrays and strings only
  \<^verbatim>\<open>length\<close> is a property here, and a built-in has none: the code reads these values
  under fixed names only (\<^verbatim>\<open>length\<close>, \<^verbatim>\<open>transactions\<close> and the payload's field names),
  and calls their methods through \<open>array_elems\<close> and \<open>push\<close> below.
\<close>

fun getq :: "jsval \<Rightarrow> string \<Rightarrow> jsval" where
  "getq (JObj kvs) k = (case map_of kvs k of Some v \<Rightarrow> v | None \<Rightarrow> inherited k)"
| "getq (JArr xs) k = (if k = ''length'' then JNum (Fin (of_nat (length xs))) else JUndefined)"
| "getq (JStr s) k = (if k = ''length'' then JNum (Fin (of_nat (length s))) else JUndefined)"
| "getq _ k = JUndefined"

text \<open>\<^verbatim>\<open>v.k\<close>: as \<^verbatim>\<open>v?.k\<close>, but raises on \<^verbatim>\<open>null\<close> and \<^verbatim>\<open>undefined\<close>.\<close>

definition get :: "jsval \<Rightarrow> string \<Rightarrow> exn + jsval" where
  "get v k = (if nullish v then Inl (TypeError k) else Inr (getq v k))"

text \<open>\<^verbatim>\<open>a || b\<close>, on values and on two numbers.\<close>

definition jor :: "jsval \<Rightarrow> jsval \<Rightarrow> jsval" where
  "jor a b = (if truthy a then a else b)"

definition num_or :: "jsnum \<Rightarrow> jsnum \<Rightarrow> jsnum" where
  "num_or a b = (if num_truthy a then a else b)"

subsection \<open>parseFloat\<close>

text \<open>
  \<^verbatim>\<open>parseFloat\<close> converts its argument to a string, skips leading white space (here the
  ASCII white space) and reads the longest prefix that is a decimal literal: an optional
  sign, then \<^verbatim>\<open>Infinity\<close> or digits with an optional fraction and an optional exponent.
  Without such a prefix it is NaN.
\<close>

definition is_ws :: "char \<Rightarrow> bool" where
  "is_ws c = ((of_char c :: nat) \<in> {9, 10, 11, 12, 13, 32})"

definition is_digit :: "char \<Rightarrow> bool" where
  "is_digit c = (48 \<le> (of_char c :: nat) \<and> (of_char c :: nat) \<le> 57)"

definition dec :: "string \<Rightarrow> nat" where
  "dec ds = foldl (\<lambda>a c. 10 * a + ((of_char c :: nat) - 48)) 0 ds"

text \<open>The factor contributed by an exponent part at the head of \<open>s\<close>, or 1 if there is none.\<close>

definition exp_digits :: "string \<Rightarrow> bool \<Rightarrow> rat" where
  "exp_digits s neg =
     (let ds = takeWhile is_digit s
      in if ds = [] then 1
         else if neg then 1 / 10 ^ dec ds else 10 ^ dec ds)"

fun exp_factor :: "string \<Rightarrow> rat" where
  "exp_factor (e # s) =
     (if e = CHR ''e'' \<or> e = CHR ''E'' then
        (case s of
           [] \<Rightarrow> 1
         | c # t \<Rightarrow>
             if c = CHR ''-'' then exp_digits t True
             else if c = CHR ''+'' then exp_digits t False
             else exp_digits s False)
      else 1)"
| "exp_factor [] = 1"

definition parse_unsigned :: "string \<Rightarrow> jsnum" where
  "parse_unsigned s =
     (if take 8 s = ''Infinity'' then PInf
      else
        let ip = takeWhile is_digit s;
            r1 = dropWhile is_digit s;
            fp = (case r1 of [] \<Rightarrow> [] | c # t \<Rightarrow> if c = CHR ''.'' then takeWhile is_digit t else []);
            r2 = (case r1 of [] \<Rightarrow> [] | c # t \<Rightarrow> if c = CHR ''.'' then dropWhile is_digit t else r1)
        in if ip = [] \<and> fp = [] then NaN
           else Fin ((of_nat (dec ip) + of_nat (dec fp) / 10 ^ length fp) * exp_factor r2))"

definition str_parse_float :: "string \<Rightarrow> jsnum" where
  "str_parse_float s =
     (case dropWhile is_ws s of
        [] \<Rightarrow> NaN
      | c # t \<Rightarrow>
          if c = CHR ''-'' then jneg (parse_unsigned t)
          else if c = CHR ''+'' then parse_unsigned t
          else parse_unsigned (c # t))"

text \<open>
  On a number, converting to a string and back gives the number. An array converts to its
  elements' strings joined by commas, and a comma ends a literal, so only the first
  element counts. \<^verbatim>\<open>undefined\<close>, \<^verbatim>\<open>null\<close>, booleans and objects convert to strings
  that start no literal.
\<close>

fun parseFloat :: "jsval \<Rightarrow> jsnum" where
  "parseFloat (JNum n) = n"
| "parseFloat (JStr s) = str_parse_float s"
| "parseFloat (JArr (x # xs)) = parseFloat x"
| "parseFloat _ = NaN"

subsection \<open>Built-ins taken from the host\<close>

text \<open>
  Conversions and library calls whose algorithms belong to the JavaScript engine or to a
  library outside the repository are parameters of the model: the decimal rendering of a
  number (\<^verbatim>\<open>String(n)\<close>), the reading of a whole string as a number (\<^verbatim>\<open>Number(s)\<close>),
  \<^verbatim>\<open>JSON.parse\<close> (\<open>None\<close> for a \<^verbatim>\<open>SyntaxError\<close>), \<^verbatim>\<open>parseInt\<close>, and the formatter
  \<^verbatim>\<open>new Intl.NumberFormat('en-IN', {style: 'currency', currency: code,
  minimumFractionDigits: 0, maximumFractionDigits: 2}).format(amount)\<close>, which raises on a
  currency code it rejects.
\<close>

record engine =
  number_to_string :: "jsnum \<Rightarrow> string"
  string_to_number :: "string \<Rightarrow> jsnum"
  json_parse :: "string \<Rightarrow> jsval option"
  parse_int :: "jsval \<Rightarrow> jsnum"
  intl_format :: "jsnum \<Rightarrow> jsval \<Rightarrow> exn + string"

text \<open>
  An engine for examples that reach no built-in: every conversion to a number answers NaN,
  and every parse or format fails.
\<close>

definition null_engine :: engine where
  "null_engine =
     \<lparr>number_to_string = (\<lambda>n. ''NaN''),
      string_to_number = (\<lambda>s. NaN),
      json_parse = (\<lambda>s. None),
      parse_int = (\<lambda>v. NaN),
      intl_format = (\<lambda>n code. Inl (RangeError ''currency''))\<rparr>"

text \<open>
  \<^verbatim>\<open>String(n)\<close> for a number: an integer below \<open>10^21\<close> in absolute value is written in
  decimal, NaN and the infinities by name; every other number is left to the engine.
\<close>

fun nat_to_string :: "nat \<Rightarrow> string" where
  "nat_to_string n =
     (if n < 10 then [''0123456789'' ! n]
      else nat_to_string (n div 10) @ [''0123456789'' ! (n mod 10)])"

declare nat_to_string.simps [simp del]

fun num_to_str :: "engine \<Rightarrow> jsnum \<Rightarrow> string" where
  "num_to_str E (Fin q) =
     (if q = of_int \<lfloor>q\<rfloor> \<and> \<bar>q\<bar> < 10 ^ 21
      then (if q < 0 then ''-'' @ nat_to_string (nat (- \<lfloor>q\<rfloor>)) else nat_to_string (nat \<lfloor>q\<rfloor>))
      else number_to_string E (Fin q))"
| "num_to_str E PInf = ''Infinity''"
| "num_to_str E NInf = ''-Infinity''"
| "num_to_str E NaN = ''NaN''"

fun join_comma :: "string list \<Rightarrow> string" where
  "join_comma [] = []"
| "join_comma [s] = s"
| "join_comma (s # t) = s @ '','' @ join_comma t"

text \<open>
  Conversion to a string, as template literals, property keys and string concatenation do
  it. An array joins its elements with commas, \<^verbatim>\<open>null\<close> and \<^verbatim>\<open>undefined\<close> elements
  giving the empty string. A built-in function gives its source text as Node prints it.
\<close>

fun to_str :: "engine \<Rightarrow> jsval \<Rightarrow> string" where
  "to_str E JUndefined = ''undefined''"
| "to_str E JNull = ''null''"
| "to_str E (JBool b) = (if b then ''true'' else ''false'')"
| "to_str E (JNum n) = num_to_str E n"
| "to_str E (JStr s) = s"
| "to_str E (JArr xs) = join_comma (map (\<lambda>x. if nullish x then [] else to_str E x) xs)"
| "to_str E (JObj kvs) = ''[object Object]''"
| "to_str E (JBuiltin k) =
     (if k = ''__proto__'' then ''[object Object]''
      else ''function '' @ (if k = ''constructor'' then ''Object'' else k)
             @ ''() { [native code] }'')"

text \<open>Conversion to a number, as the arithmetic and relational operators do it.\<close>

fun to_number :: "engine \<Rightarrow> jsval \<Rightarrow> jsnum" where
  "to_number E JUndefined = NaN"
| "to_number E JNull = Fin 0"
| "to_number E (JBool b) = (if b then Fin 1 else Fin 0)"
| "to_number E (JNum n) = n"
| "to_number E (JStr s) = string_to_number E s"
| "to_number E (JArr xs) = string_to_number E (to_str E (JArr xs))"
| "to_number E (JObj kvs) = string_to_number E (to_str E (JObj kvs))"
| "to_number E (JBuiltin k) = string_to_number E (to_str E (JBuiltin k))"

text \<open>
  \<^verbatim>\<open>a + b\<close>: arrays, objects and functions first become strings; if either operand is then a
  string the result is the concatenation, otherwise the numeric sum. \<^verbatim>\<open>a - b\<close> is always
  numeric.
\<close>

fun prim_is_string :: "jsval \<Rightarrow> bool" where
  "prim_is_string (JStr _) = True"
| "prim_is_string (JArr _) = True"
| "prim_is_string (JObj _) = True"
| "prim_is_string (JBuiltin _) = True"
| "prim_is_string _ = False"

definition js_add :: "engine \<Rightarrow> jsval \<Rightarrow> jsval \<Rightarrow> jsval" where
  "js_add E a b =
     (if prim_is_string a \<or> prim_is_string b then JStr (to_str E a @ to_str E b)
      else JNum (jadd (to_number E a) (to_number E b)))"

definition js_sub :: "engine \<Rightarrow> jsval \<Rightarrow> jsval \<Rightarrow> jsval" where
  "js_sub E a b = JNum (jsub (to_number E a) (to_number E b))"

text \<open>
  \<^verbatim>\<open>a > b\<close>: two strings compare by their characters, anything else as numbers.
\<close>

fun str_less :: "string \<Rightarrow> string \<Rightarrow> bool" where
  "str_less [] [] = False"
| "str_less [] (d # t) = True"
| "str_less (c # s) [] = False"
| "str_less (c # s) (d # t) =
     ((of_char c :: nat) < of_char d \<or> ((of_char c :: nat) = of_char d \<and> str_less s t))"

definition js_gt :: "engine \<Rightarrow> jsval \<Rightarrow> jsval \<Rightarrow> bool" where
  "js_gt E a b =
     (if prim_is_string a \<and> prim_is_string b then str_less (to_str E b) (to_str E a)
      else jgt (to_number E a) (to_number E b))"

text \<open>A parameter with a default value takes the default when the argument is
  \<^verbatim>\<open>undefined\<close>.\<close>

definition default_arg :: "jsval \<Rightarrow> jsval \<Rightarrow> jsval" where
  "default_arg d arg = (if arg = JUndefined then d else arg)"

text \<open>
  Array methods (\<^verbatim>\<open>map\<close>, \<^verbatim>\<open>forEach\<close>) exist on arrays only: calling \<^verbatim>\<open>v.m(...)\<close> on
  any other value raises, either because \<^verbatim>\<open>v\<close> is \<^verbatim>\<open>null\<close> or \<^verbatim>\<open>undefined\<close> or because
  \<^verbatim>\<open>v.m\<close> is not a function.
\<close>

fun array_elems :: "string \<Rightarrow> jsval \<Rightarrow> exn + jsval list" where
  "array_elems m (JArr xs) = Inr xs"
| "array_elems m _ = Inl (TypeError m)"

text \<open>
  Array destructuring \<^verbatim>\<open>const [a, b, ...] = v\<close> iterates \<^verbatim>\<open>v\<close>: an array gives its
  elements, a string its characters, anything else is not iterable. A position past the
  end is \<^verbatim>\<open>undefined\<close>.
\<close>

fun iter_elems :: "jsval \<Rightarrow> exn + jsval list" where
  "iter_elems (JArr xs) = Inr xs"
| "iter_elems (JStr s) = Inr (map (\<lambda>c. JStr [c]) s)"
| "iter_elems _ = Inl (TypeError ''Symbol.iterator'')"

definition elem :: "jsval list \<Rightarrow> nat \<Rightarrow> jsval" where
  "elem xs i = (if i < length xs then xs ! i else JUndefined)"

text \<open>Running a callback that may raise over a list, stopping at the first exception.\<close>

fun mapM :: "('a \<Rightarrow> exn + 'b) \<Rightarrow> 'a list \<Rightarrow> exn + 'b list" where
  "mapM f [] = Inr []"
| "mapM f (x # xs) =
     (case f x of
        Inl e \<Rightarrow> Inl e
      | Inr y \<Rightarrow> (case mapM f xs of Inl e \<Rightarrow> Inl e | Inr ys \<Rightarrow> Inr (y # ys)))"

text \<open>
  Writing a property: an existing key keeps its place, a new key goes to the end.
\<close>

fun assoc_set :: "string \<Rightarrow> jsval \<Rightarrow> (string \<times> jsval) list \<Rightarrow> (string \<times> jsval) list" where
  "assoc_set k v [] = [(k, v)]"
| "assoc_set k v ((k', v') # kvs) =
     (if k = k' then (k, v) # kvs else (k', v') # assoc_set k v kvs)"

fun obj_set :: "jsval \<Rightarrow> string \<Rightarrow> jsval \<Rightarrow> jsval" where
  "obj_set (JObj kvs) k v = JObj (assoc_set k v kvs)"
| "obj_set g k v = g"

text \<open>
  \<^verbatim>\<open>a.push(x)\<close>: on an array the array with \<^verbatim>\<open>x\<close> appended; on any other value the call
  raises (on \<^verbatim>\<open>undefined\<close> already the read of \<^verbatim>\<open>push\<close> does).
\<close>

fun push :: "jsval \<Rightarrow> jsval \<Rightarrow> exn + jsval" where
  "push (JArr xs) x = Inr (JArr (xs @ [x]))"
| "push a x = Inl (TypeError ''push'')"

text \<open>
  \<^verbatim>\<open>xs.reduce(f, init)\<close> with a callback that may raise: the accumulator is threaded
  through the elements in order, and the first exception ends the loop.
\<close>

fun foldM :: "('a \<Rightarrow> 'b \<Rightarrow> exn + 'a) \<Rightarrow> 'a \<Rightarrow> 'b list \<Rightarrow> exn + 'a" where
  "foldM f acc [] = Inr acc"
| "foldM f acc (x # xs) = (case f acc x of Inl e \<Rightarrow> Inl e | Inr acc' \<Rightarrow> foldM f acc' xs)"

text \<open>\<^verbatim>\<open>v[0]\<close> on a value that is neither \<^verbatim>\<open>null\<close> nor \<^verbatim>\<open>undefined\<close>.\<close>

fun index0 :: "jsval \<Rightarrow> jsval" where
  "index0 (JArr []) = JUndefined"
| "index0 (JArr (x # xs)) = x"
| "index0 (JStr []) = JUndefined"
| "index0 (JStr (c # s)) = JStr [c]"
| "index0 (JObj kvs) = getq (JObj kvs) ''0''"
| "index0 _ = JUndefined"

section \<open>CurrencyMath (\<^verbatim>\<open>functions/utils.js\<close>)\<close>

text \<open>
  \<^verbatim>\<open>
  function currencyToNumber(currencyObj) {
    if (!currencyObj || !currencyObj.units) return 0;
    const units = parseFloat(currencyObj.units) || 0;
    const nanos = parseFloat(currencyObj.nanos) || 0;
    return units + (nanos / 1000000000);
  }
  \<close>
  Past the guard \<^verbatim>\<open>currencyObj\<close> is truthy, so its property reads cannot raise.
\<close>

definition currencyToNumber :: "jsval \<Rightarrow> jsnum" where
  "currencyToNumber currencyObj =
     (if \<not> truthy currencyObj \<or> \<not> truthy (getq currencyObj ''units'') then Fin 0
      else
        let units = num_or (parseFloat (getq currencyObj ''units'')) (Fin 0);
            nanos = num_or (parseFloat (getq currencyObj ''nanos'')) (Fin 0)
        in jadd units (jdiv nanos (Fin 1000000000)))"

text \<open>
  \<^verbatim>\<open>
  function calculatePercentageChange(current, previous) {
    if (previous === 0) return 0;
    return ((current - previous) / previous) * 100;
  }
  \<close>
  Both parameters are documented as numbers.
\<close>

definition calculatePercentageChange :: "jsnum \<Rightarrow> jsnum \<Rightarrow> jsnum" where
  "calculatePercentageChange current previous =
     (if previous = Fin 0 then Fin 0
      else jmul (jdiv (jsub current previous) previous) (Fin 100))"

section \<open>SessionClient (\<^verbatim>\<open>functions/mcp-client.js\<close>)\<close>

text \<open>
  The transport is \<^verbatim>\<open>axios.post(url, body, config)\<close>. A call either resolves with a
  response (status, headers, decoded body) or rejects with an error that has a message
  and, when the server answered, that answer. Which of the two happens is the
  environment's choice, so the transport is a parameter: a function of the requests sent
  so far and of the request.

  A template literal is kept as its parts, the interpolated values unconverted.
\<close>

record response =
  status :: nat
  headers :: "(string \<times> jsval) list"
  data :: jsval

datatype outcome = Resolved response | Rejected string "response option"

datatype tpart = Lit string | Interp jsval

datatype payload = JsonBody jsval | TextBody "tpart list"

record request =
  url :: string
  body :: payload
  req_headers :: "(string \<times> jsval) list"

type_synonym transport = "request list \<Rightarrow> request \<Rightarrow> outcome"

text \<open>
  \<^verbatim>\<open>
  constructor(baseUrl = 'https://fi-mcp-server-267132178774.us-central1.run.app/mcp/stream') {
    this.baseUrl = baseUrl;
    this.sessionId = null;
    this.isAuthenticated = false;
  }
  \<close>
\<close>

record client =
  baseUrl :: string
  sessionId :: jsval
  isAuthenticated :: bool

definition new_MCPClient :: "string option \<Rightarrow> client" where
  "new_MCPClient arg =
     \<lparr>baseUrl = (case arg of
                   None \<Rightarrow> ''https://fi-mcp-server-267132178774.us-central1.run.app/mcp/stream''
                 | Some u \<Rightarrow> u),
      sessionId = JNull,
      isAuthenticated = False\<rparr>"

text \<open>The client together with the requests it has sent, oldest first.\<close>

record world =
  this :: client
  sent :: "request list"

definition axios_post :: "transport \<Rightarrow> request \<Rightarrow> world \<Rightarrow> outcome \<times> world" where
  "axios_post net req w = (net (sent w) req, w\<lparr>sent := sent w @ [req]\<rparr>)"

text \<open>Two transports for examples: one outcome for every call, and a list of outcomes
  handed out in order (a network error once the list is used up).\<close>

definition always :: "outcome \<Rightarrow> transport" where
  "always out history req = out"

definition scripted :: "outcome list \<Rightarrow> transport" where
  "scripted outs history req =
     (if length history < length outs then outs ! length history
      else Rejected ''Network Error'' None)"

text \<open>\<^verbatim>\<open>s.replace(pat, rep)\<close> with a string pattern: the first occurrence only.\<close>

fun replace_first :: "string \<Rightarrow> string \<Rightarrow> string \<Rightarrow> string" where
  "replace_first pat rep [] = (if pat = [] then rep else [])"
| "replace_first pat rep (c # s) =
     (if take (length pat) (c # s) = pat then rep @ drop (length pat) (c # s)
      else c # replace_first pat rep s)"

subsection \<open>initialize\<close>

text \<open>
  \<^verbatim>\<open>
  async initialize() {
    try {
      const response = await axios.post(this.baseUrl, {jsonrpc: '2.0', id: 1,
        method: 'initialize', params: {protocolVersion: '2024-11-05',
          capabilities: {tools: {}}, clientInfo: {name: 'fi-mcp-functions', version: '1.0.0'}}});
      this.sessionId = response.headers['mcp-session-id'];
      if (!this.sessionId) { throw new Error('No session ID received from MCP server'); }
      return response.data;
    } catch (error) {
      ... console.error ...
      throw new Error('MCP initialization failed');
    }
  }
  \<close>
  The assignment to \<^verbatim>\<open>this.sessionId\<close> comes before the check, so it stays when the check
  throws. Console output is not modelled.
\<close>

definition initialize_request :: "client \<Rightarrow> request" where
  "initialize_request c =
     \<lparr>url = baseUrl c,
      body = JsonBody (JObj
        [(''jsonrpc'', JStr ''2.0''),
         (''id'', JNum (Fin 1)),
         (''method'', JStr ''initialize''),
         (''params'', JObj
            [(''protocolVersion'', JStr ''2024-11-05''),
             (''capabilities'', JObj [(''tools'', JObj [])]),
             (''clientInfo'', JObj
                [(''name'', JStr ''fi-mcp-functions''), (''version'', JStr ''1.0.0'')])])]),
      req_headers = []\<rparr>"

definition initialize :: "transport \<Rightarrow> world \<Rightarrow> (exn + jsval) \<times> world" where
  "initialize net w =
     (case axios_post net (initialize_request (this w)) w of
        (Rejected msg resp, w1) \<Rightarrow> (Inl (Error ''MCP initialization failed''), w1)
      | (Resolved response, w1) \<Rightarrow>
          let w2 = w1\<lparr>this := (this w1)
                     \<lparr>sessionId := getq (JObj (headers response)) ''mcp-session-id''\<rparr>\<rparr>
          in if \<not> truthy (sessionId (this w2))
             then (Inl (Error ''MCP initialization failed''), w2)
             else (Inr (data response), w2))"

subsection \<open>authenticate\<close>

text \<open>
  \<^verbatim>\<open>
  async authenticate(phoneNumber = '9999999999') {
    try {
      if (!this.sessionId) {
        throw new Error('Session ID not available. Call initialize() first.');
      }
      const authResponse = await axios.post(
        `${this.baseUrl.replace('/mcp/stream', '')}/login`,
        `sessionId=${this.sessionId}&phoneNumber=${phoneNumber}`,
        { headers: { 'Content-Type': 'application/x-www-form-urlencoded' } });
      if (authResponse.status === 200) {
        this.isAuthenticated = true;
        return true;
      } else {
        throw new Error(`Authentication failed with status: ${authResponse.status}`);
      }
    } catch (error) {
      console.error('MCP authentication failed:', error.message);
      throw new Error('MCP authentication failed');
    }
  }
  \<close>
  Every error raised inside the \<^verbatim>\<open>try\<close>, also the two the method throws itself, is
  replaced by the one of the \<^verbatim>\<open>catch\<close>. The default of \<^verbatim>\<open>phoneNumber\<close> applies when the
  argument is \<^verbatim>\<open>undefined\<close>.
\<close>

definition login_request :: "client \<Rightarrow> jsval \<Rightarrow> request" where
  "login_request c phoneNumber =
     \<lparr>url = replace_first ''/mcp/stream'' [] (baseUrl c) @ ''/login'',
      body = TextBody
        [Lit ''sessionId='', Interp (sessionId c), Lit ''&phoneNumber='', Interp phoneNumber],
      req_headers = [(''Content-Type'', JStr ''application/x-www-form-urlencoded'')]\<rparr>"

definition authenticate :: "transport \<Rightarrow> jsval \<Rightarrow> world \<Rightarrow> (exn + jsval) \<times> world" where
  "authenticate net arg w =
     (let phoneNumber = default_arg (JStr ''9999999999'') arg
      in if \<not> truthy (sessionId (this w)) then (Inl (Error ''MCP authentication failed''), w)
         else
           (case axios_post net (login_request (this w) phoneNumber) w of
              (Rejected msg resp, w1) \<Rightarrow> (Inl (Error ''MCP authentication failed''), w1)
            | (Resolved authResponse, w1) \<Rightarrow>
                if status authResponse = 200
                then (Inr (JBool True), w1\<lparr>this := (this w1)\<lparr>isAuthenticated := True\<rparr>\<rparr>)
                else (Inl (Error ''MCP authentication failed''), w1)))"

subsection \<open>listTools\<close>

text \<open>
  \<^verbatim>\<open>
  async listTools() {
    try {
      const response = await axios.post(this.baseUrl,
        {jsonrpc: '2.0', id: 2, method: 'tools/list', params: {}},
        {headers: {'MCP-Session-ID': this.sessionId}});
      return response.data.result;
    } catch (error) {
      ... console.error ...
      throw new Error('Failed to list MCP tools');
    }
  }
  \<close>
\<close>

definition listTools_request :: "client \<Rightarrow> request" where
  "listTools_request c =
     \<lparr>url = baseUrl c,
      body = JsonBody (JObj
        [(''jsonrpc'', JStr ''2.0''),
         (''id'', JNum (Fin 2)),
         (''method'', JStr ''tools/list''),
         (''params'', JObj [])]),
      req_headers = [(''MCP-Session-ID'', sessionId c)]\<rparr>"

definition listTools :: "transport \<Rightarrow> world \<Rightarrow> (exn + jsval) \<times> world" where
  "listTools net w =
     (case axios_post net (listTools_request (this w)) w of
        (Rejected msg resp, w1) \<Rightarrow> (Inl (Error ''Failed to list MCP tools''), w1)
      | (Resolved response, w1) \<Rightarrow>
          (case get (data response) ''result'' of
             Inl e \<Rightarrow> (Inl (Error ''Failed to list MCP tools''), w1)
           | Inr result \<Rightarrow> (Inr result, w1)))"

subsection \<open>callTool\<close>

text \<open>
  \<^verbatim>\<open>
  async callTool(toolName, arguments_ = {}) {
    try {
      const response = await axios.post(this.baseUrl,
        {jsonrpc: '2.0', id: Date.now(), method: 'tools/call',
         params: {name: toolName, arguments: arguments_}},
        {headers: {'MCP-Session-ID': this.sessionId}});
      if (response.data.error) {
        throw new Error(response.data.error.message);
      }
      const result = response.data.result;
      if (result && result.content && result.content.length > 0) {
        const content = result.content[0];
        if (content.type === 'text' && content.text) {
          try {
            return JSON.parse(content.text);
          } catch (parseError) {
            return result; // Return raw result if parsing fails
          }
        }
      }
      return result;
    } catch (error) {
      ... console.error ...
      throw new Error(`MCP tool call failed: ${error.message}`);
    }
  }
  \<close>
  \<^verbatim>\<open>Date.now()\<close> is the argument \<open>now\<close>. The method has no check of \<^verbatim>\<open>this.sessionId\<close>.
\<close>

definition callTool_request :: "client \<Rightarrow> nat \<Rightarrow> jsval \<Rightarrow> jsval \<Rightarrow> request" where
  "callTool_request c now toolName arguments =
     \<lparr>url = baseUrl c,
      body = JsonBody (JObj
        [(''jsonrpc'', JStr ''2.0''),
         (''id'', JNum (Fin (of_nat now))),
         (''method'', JStr ''tools/call''),
         (''params'', JObj [(''name'', toolName), (''arguments'', arguments)])]),
      req_headers = [(''MCP-Session-ID'', sessionId c)]\<rparr>"

text \<open>What the body of the \<^verbatim>\<open>try\<close> does with a response.\<close>

definition read_tool_response :: "engine \<Rightarrow> response \<Rightarrow> exn + jsval" where
  "read_tool_response E response =
     (case get (data response) ''error'' of
        Inl e \<Rightarrow> Inl e
      | Inr err \<Rightarrow>
          if truthy err then Inl (RemoteError (getq err ''message''))
          else
            let result = getq (data response) ''result''
            in if truthy result \<and> truthy (getq result ''content'')
                  \<and> js_gt E (getq (getq result ''content'') ''length'') (JNum (Fin 0))
               then
                 (case get (index0 (getq result ''content'')) ''type'' of
                    Inl e \<Rightarrow> Inl e
                  | Inr ty \<Rightarrow>
                      let content = index0 (getq result ''content'')
                      in if ty = JStr ''text'' \<and> truthy (getq content ''text'')
                         then (case json_parse E (to_str E (getq content ''text'')) of
                                 Some parsed \<Rightarrow> Inr parsed
                               | None \<Rightarrow> Inr result)
                         else Inr result)
               else Inr result)"

definition callTool ::
  "engine \<Rightarrow> transport \<Rightarrow> nat \<Rightarrow> jsval \<Rightarrow> jsval \<Rightarrow> world \<Rightarrow> (exn + jsval) \<times> world" where
  "callTool E net now toolName arg w =
     (let arguments = default_arg (JObj []) arg
      in case axios_post net (callTool_request (this w) now toolName arguments) w of
           (Rejected msg resp, w1) \<Rightarrow> (Inl (ToolCallFailed (AxiosError msg)), w1)
         | (Resolved response, w1) \<Rightarrow>
             (case read_tool_response E response of
                Inl e \<Rightarrow> (Inl (ToolCallFailed e), w1)
              | Inr v \<Rightarrow> (Inr v, w1)))"

text \<open>
  \<^verbatim>\<open>
  async fetchNetWorth() { return await this.callTool('fetch_net_worth'); }
  \<close>
  and likewise the other four wrappers.
\<close>

definition fetchNetWorth :: "engine \<Rightarrow> transport \<Rightarrow> nat \<Rightarrow> world \<Rightarrow> (exn + jsval) \<times> world" where
  "fetchNetWorth E net now w = callTool E net now (JStr ''fetch_net_worth'') JUndefined w"

definition fetchCreditReport :: "engine \<Rightarrow> transport \<Rightarrow> nat \<Rightarrow> world \<Rightarrow> (exn + jsval) \<times> world" where
  "fetchCreditReport E net now w = callTool E net now (JStr ''fetch_credit_report'') JUndefined w"

definition fetchEPFDetails :: "engine \<Rightarrow> transport \<Rightarrow> nat \<Rightarrow> world \<Rightarrow> (exn + jsval) \<times> world" where
  "fetchEPFDetails E net now w = callTool E net now (JStr ''fetch_epf_details'') JUndefined w"

definition fetchMFTransactions :: "engine \<Rightarrow> transport \<Rightarrow> nat \<Rightarrow> world \<Rightarrow> (exn + jsval) \<times> world" where
  "fetchMFTransactions E net now w =
     callTool E net now (JStr ''fetch_mf_transactions'') JUndefined w"

definition fetchBankTransactions :: "engine \<Rightarrow> transport \<Rightarrow> nat \<Rightarrow> world \<Rightarrow> (exn + jsval) \<times> world" where
  "fetchBankTransactions E net now w =
     callTool E net now (JStr ''fetch_bank_transactions'') JUndefined w"

subsection \<open>Sequences of operations\<close>

text \<open>
  A caller may catch an error and go on using the client, so a sequence of operations
  keeps the state each operation leaves, whether it returned or threw.
\<close>

datatype operation =
    Initialize
  | Authenticate jsval
  | ListTools
  | CallTool nat jsval jsval

fun perform :: "engine \<Rightarrow> transport \<Rightarrow> operation \<Rightarrow> world \<Rightarrow> (exn + jsval) \<times> world" where
  "perform E net Initialize w = initialize net w"
| "perform E net (Authenticate phoneNumber) w = authenticate net phoneNumber w"
| "perform E net ListTools w = listTools net w"
| "perform E net (CallTool now toolName arguments) w = callTool E net now toolName arguments w"

fun run :: "engine \<Rightarrow> transport \<Rightarrow> operation list \<Rightarrow> world \<Rightarrow> world" where
  "run E net [] w = w"
| "run E net (op # ops) w = run E net ops (snd (perform E net op w))"

text \<open>The states a sequence passes through, the starting state first.\<close>

fun trace :: "engine \<Rightarrow> transport \<Rightarrow> operation list \<Rightarrow> world \<Rightarrow> world list" where
  "trace E net [] w = [w]"
| "trace E net (op # ops) w = w # trace E net ops (snd (perform E net op w))"

text \<open>
  The number of positions in a list of states at which a flag goes from \<open>a\<close> to \<open>b\<close>.
\<close>

fun flips :: "bool \<Rightarrow> bool \<Rightarrow> bool list \<Rightarrow> nat" where
  "flips a b (x # y # ys) = (if x = a \<and> y = b then 1 else 0) + flips a b (y # ys)"
| "flips a b _ = 0"

section \<open>Normalizers (\<^verbatim>\<open>functions/utils.js\<close>)\<close>

text \<open>
  Each normalizer takes a decoded payload and returns a fresh object, or raises. The
  objects it builds list their properties in the order of the source's object literal.
\<close>

text \<open>
  \<^verbatim>\<open>
  function formatCurrency(amount, currencyCode = 'INR') {
    return new Intl.NumberFormat('en-IN', {style: 'currency', currency: currencyCode,
      minimumFractionDigits: 0, maximumFractionDigits: 2}).format(amount);
  }
  \<close>
\<close>

definition formatCurrency :: "engine \<Rightarrow> jsnum \<Rightarrow> jsval \<Rightarrow> exn + jsval" where
  "formatCurrency E amount currencyCode =
     (case intl_format E amount (default_arg (JStr ''INR'') currencyCode) of
        Inl e \<Rightarrow> Inl e
      | Inr s \<Rightarrow> Inr (JStr s))"

subsection \<open>processNetWorthData\<close>

text \<open>
  \<^verbatim>\<open>
  function processNetWorthData(response) {
    if (!response || !response.netWorthResponse) {
      return {totalNetWorth: 0, currency: 'INR', assets: [],
              error: 'No net worth data available'};
    }
    const netWorthData = response.netWorthResponse;
    const totalNetWorth = currencyToNumber(netWorthData.totalNetWorthValue);
    const currency = netWorthData.totalNetWorthValue?.currencyCode || 'INR';
    const assets = (netWorthData.assetValues || []).map(asset => ({
      type: asset.netWorthAttribute,
      value: currencyToNumber(asset.value),
      formattedValue: formatCurrency(currencyToNumber(asset.value), currency)
    }));
    return {
      totalNetWorth,
      formattedTotalNetWorth: formatCurrency(totalNetWorth, currency),
      currency,
      assets,
      mutualFunds: response.mfSchemeAnalytics?.schemeAnalytics || [],
      accountDetails: response.accountDetailsBulkResponse?.accountDetailsMap || {}
    };
  }
  \<close>
\<close>

definition net_worth_asset :: "engine \<Rightarrow> jsval \<Rightarrow> jsval \<Rightarrow> exn + jsval" where
  "net_worth_asset E currency asset =
     (case get asset ''netWorthAttribute'' of
        Inl e \<Rightarrow> Inl e
      | Inr ty \<Rightarrow>
          (case formatCurrency E (currencyToNumber (getq asset ''value'')) currency of
             Inl e \<Rightarrow> Inl e
           | Inr formatted \<Rightarrow>
               Inr (JObj
                 [(''type'', ty),
                  (''value'', JNum (currencyToNumber (getq asset ''value''))),
                  (''formattedValue'', formatted)])))"

definition processNetWorthData :: "engine \<Rightarrow> jsval \<Rightarrow> exn + jsval" where
  "processNetWorthData E response =
     (if \<not> truthy response \<or> \<not> truthy (getq response ''netWorthResponse'') then
        Inr (JObj
          [(''totalNetWorth'', JNum (Fin 0)),
           (''currency'', JStr ''INR''),
           (''assets'', JArr []),
           (''error'', JStr ''No net worth data available'')])
      else
        let netWorthData = getq response ''netWorthResponse'';
            totalNetWorth = currencyToNumber (getq netWorthData ''totalNetWorthValue'');
            currency = jor (getq (getq netWorthData ''totalNetWorthValue'') ''currencyCode'')
                         (JStr ''INR'')
        in case array_elems ''map'' (jor (getq netWorthData ''assetValues'') (JArr [])) of
             Inl e \<Rightarrow> Inl e
           | Inr xs \<Rightarrow>
               (case mapM (net_worth_asset E currency) xs of
                  Inl e \<Rightarrow> Inl e
                | Inr assets \<Rightarrow>
                    (case formatCurrency E totalNetWorth currency of
                       Inl e \<Rightarrow> Inl e
                     | Inr formatted \<Rightarrow>
                         Inr (JObj
                           [(''totalNetWorth'', JNum totalNetWorth),
                            (''formattedTotalNetWorth'', formatted),
                            (''currency'', currency),
                            (''assets'', JArr assets),
                            (''mutualFunds'',
                               jor (getq (getq response ''mfSchemeAnalytics'') ''schemeAnalytics'')
                                 (JArr [])),
                            (''accountDetails'',
                               jor (getq (getq response ''accountDetailsBulkResponse'')
                                      ''accountDetailsMap'')
                                 (JObj []))]))))"

subsection \<open>processCreditData\<close>

text \<open>
  \<^verbatim>\<open>
  function processCreditData(response) {
    if (!response || !response.creditReports || response.creditReports.length === 0) {
      return {creditScore: null, accounts: [], error: 'No credit data available'};
    }
    const creditData = response.creditReports[0].creditReportData;
    const score = creditData.score?.bureauScore;
    const accounts = (creditData.creditAccount?.creditAccountDetails || []).map(account => ({
      id: account.identificationNumber,
      subscriber: account.subscriberName,
      accountType: account.accountType,
      creditLimit: parseFloat(account.creditLimitAmount) || 0,
      currentBalance: parseFloat(account.currentBalance) || 0,
      paymentRating: account.paymentRating,
      accountStatus: account.accountStatus,
      openDate: account.openDate
    }));
    return {
      creditScore: score ? parseInt(score) : null,
      accounts,
      totalAccounts:
        creditData.creditAccount?.creditAccountSummary?.account?.creditAccountTotal || 0,
      activeAccounts:
        creditData.creditAccount?.creditAccountSummary?.account?.creditAccountActive || 0,
      outstandingBalance:
        creditData.creditAccount?.creditAccountSummary?.totalOutstandingBalance || {}
    };
  }
  \<close>
  The reads \<^verbatim>\<open>response.creditReports[0].creditReportData\<close> and \<^verbatim>\<open>creditData.score\<close> are
  plain property reads: they raise when the value read from is \<^verbatim>\<open>undefined\<close>.
\<close>

definition credit_account :: "jsval \<Rightarrow> exn + jsval" where
  "credit_account account =
     (case get account ''identificationNumber'' of
        Inl e \<Rightarrow> Inl e
      | Inr idn \<Rightarrow>
          Inr (JObj
            [(''id'', idn),
             (''subscriber'', getq account ''subscriberName''),
             (''accountType'', getq account ''accountType''),
             (''creditLimit'',
                JNum (num_or (parseFloat (getq account ''creditLimitAmount'')) (Fin 0))),
             (''currentBalance'',
                JNum (num_or (parseFloat (getq account ''currentBalance'')) (Fin 0))),
             (''paymentRating'', getq account ''paymentRating''),
             (''accountStatus'', getq account ''accountStatus''),
             (''openDate'', getq account ''openDate'')]))"

definition processCreditData :: "engine \<Rightarrow> jsval \<Rightarrow> exn + jsval" where
  "processCreditData E response =
     (if \<not> truthy response \<or> \<not> truthy (getq response ''creditReports'')
         \<or> getq (getq response ''creditReports'') ''length'' = JNum (Fin 0) then
        Inr (JObj
          [(''creditScore'', JNull),
           (''accounts'', JArr []),
           (''error'', JStr ''No credit data available'')])
      else
        (case get (index0 (getq response ''creditReports'')) ''creditReportData'' of
           Inl e \<Rightarrow> Inl e
         | Inr creditData \<Rightarrow>
             (case get creditData ''score'' of
                Inl e \<Rightarrow> Inl e
              | Inr sc \<Rightarrow>
                  let score = getq sc ''bureauScore'';
                      summary = getq (getq creditData ''creditAccount'') ''creditAccountSummary''
                  in case array_elems ''map''
                            (jor (getq (getq creditData ''creditAccount'') ''creditAccountDetails'')
                               (JArr [])) of
                       Inl e \<Rightarrow> Inl e
                     | Inr xs \<Rightarrow>
                         (case mapM credit_account xs of
                            Inl e \<Rightarrow> Inl e
                          | Inr accounts \<Rightarrow>
                              Inr (JObj
                                [(''creditScore'',
                                    if truthy score then JNum (parse_int E score) else JNull),
                                 (''accounts'', JArr accounts),
                                 (''totalAccounts'',
                                    jor (getq (getq summary ''account'') ''creditAccountTotal'')
                                      (JNum (Fin 0))),
                                 (''activeAccounts'',
                                    jor (getq (getq summary ''account'') ''creditAccountActive'')
                                      (JNum (Fin 0))),
                                 (''outstandingBalance'',
                                    jor (getq summary ''totalOutstandingBalance'') (JObj []))])))))"

subsection \<open>processEPFData\<close>

text \<open>
  \<^verbatim>\<open>
  function processEPFData(response) {
    if (!response || !response.uanAccounts || response.uanAccounts.length === 0) {
      return {totalBalance: 0, employeeShare: 0, employerShare: 0,
              error: 'No EPF data available'};
    }
    const epfData = response.uanAccounts[0].rawDetails;
    const overallBalance = epfData.overall_pf_balance;
    const employeeShare = parseFloat(overallBalance?.employee_share_total?.balance) || 0;
    let employerShare = 0;
    if (Array.isArray(epfData.est_details)) {
      employerShare = epfData.est_details.reduce((sum, est) => {
        const bal = parseFloat(est?.pf_balance?.employer_share?.balance) || 0;
        return sum + bal;
      }, 0);
    }
    return {
      totalBalance: parseFloat(overallBalance?.current_pf_balance) || 0,
      employeeShare,
      employerShare,
      pensionBalance: parseFloat(overallBalance?.pension_balance) || 0,
      employerDetails: epfData.est_details || []
    };
  }
  \<close>
\<close>

text \<open>The \<^verbatim>\<open>bal\<close> of one establishment record.\<close>

definition employer_bal :: "jsval \<Rightarrow> jsnum" where
  "employer_bal est =
     num_or (parseFloat (getq (getq (getq est ''pf_balance'') ''employer_share'') ''balance''))
       (Fin 0)"

fun is_array :: "jsval \<Rightarrow> bool" where
  "is_array (JArr xs) = True"
| "is_array _ = False"

fun the_elems :: "jsval \<Rightarrow> jsval list" where
  "the_elems (JArr xs) = xs"
| "the_elems _ = []"

definition processEPFData :: "jsval \<Rightarrow> exn + jsval" where
  "processEPFData response =
     (if \<not> truthy response \<or> \<not> truthy (getq response ''uanAccounts'')
         \<or> getq (getq response ''uanAccounts'') ''length'' = JNum (Fin 0) then
        Inr (JObj
          [(''totalBalance'', JNum (Fin 0)),
           (''employeeShare'', JNum (Fin 0)),
           (''employerShare'', JNum (Fin 0)),
           (''error'', JStr ''No EPF data available'')])
      else
        (case get (index0 (getq response ''uanAccounts'')) ''rawDetails'' of
           Inl e \<Rightarrow> Inl e
         | Inr epfData \<Rightarrow>
             (case get epfData ''overall_pf_balance'' of
                Inl e \<Rightarrow> Inl e
              | Inr overallBalance \<Rightarrow>
                  let employeeShare =
                        num_or (parseFloat
                          (getq (getq overallBalance ''employee_share_total'') ''balance''))
                          (Fin 0);
                      employerShare =
                        (if is_array (getq epfData ''est_details'')
                         then foldl (\<lambda>sum est. jadd sum (employer_bal est)) (Fin 0)
                                (the_elems (getq epfData ''est_details''))
                         else Fin 0)
                  in Inr (JObj
                       [(''totalBalance'',
                           JNum (num_or (parseFloat (getq overallBalance ''current_pf_balance''))
                                  (Fin 0))),
                        (''employeeShare'', JNum employeeShare),
                        (''employerShare'', JNum employerShare),
                        (''pensionBalance'',
                           JNum (num_or (parseFloat (getq overallBalance ''pension_balance''))
                                  (Fin 0))),
                        (''employerDetails'',
                           jor (getq epfData ''est_details'') (JArr []))]))))"

subsection \<open>processMFTransactions\<close>

text \<open>
  \<^verbatim>\<open>
  function processMFTransactions(response) {
    if (!response || !response.mfTransactions) {
      return {transactions: [], schemes: {}, error: 'No transaction data available'};
    }
    const transactions = [];
    response.mfTransactions.forEach(scheme => {
      scheme.txns.forEach(txn => {
        const [orderType, date, nav, units, amount] = txn;
        transactions.push({
          isin: scheme.isin, folioId: scheme.folioId,
          type: orderType === 1 ? 'BUY' : 'SELL',
          date: date, amount: amount, units: units, nav: nav,
          schemeName: scheme.schemeName
        });
      });
    });
    const schemes = transactions.reduce((acc, tx) => {
      if (!acc[tx.isin]) {
        acc[tx.isin] = {isin: tx.isin, schemeName: tx.schemeName, transactions: [],
                        totalInvested: 0, totalUnits: 0};
      }
      acc[tx.isin].transactions.push(tx);
      if (tx.type === 'BUY') {
        acc[tx.isin].totalInvested += tx.amount;
        acc[tx.isin].totalUnits += tx.units;
      } else {
        acc[tx.isin].totalInvested -= tx.amount;
        acc[tx.isin].totalUnits -= tx.units;
      }
      return acc;
    }, {});
    return {transactions, schemes, totalTransactions: transactions.length};
  }
  \<close>
  \<^verbatim>\<open>scheme.txns.forEach\<close> is a plain method call: it raises when \<^verbatim>\<open>txns\<close> is absent.
\<close>

definition mf_txn :: "jsval \<Rightarrow> jsval \<Rightarrow> exn + jsval" where
  "mf_txn scheme txn =
     (case iter_elems txn of
        Inl e \<Rightarrow> Inl e
      | Inr parts \<Rightarrow>
          Inr (JObj
            [(''isin'', getq scheme ''isin''),
             (''folioId'', getq scheme ''folioId''),
             (''type'', JStr (if elem parts 0 = JNum (Fin 1) then ''BUY'' else ''SELL'')),
             (''date'', elem parts 1),
             (''amount'', elem parts 4),
             (''units'', elem parts 3),
             (''nav'', elem parts 2),
             (''schemeName'', getq scheme ''schemeName'')]))"

definition mf_scheme :: "jsval \<Rightarrow> exn + jsval list" where
  "mf_scheme scheme =
     (case get scheme ''txns'' of
        Inl e \<Rightarrow> Inl e
      | Inr txns \<Rightarrow>
          (case array_elems ''forEach'' txns of
             Inl e \<Rightarrow> Inl e
           | Inr ts \<Rightarrow> mapM (mf_txn scheme) ts))"

text \<open>
  One step of the \<^verbatim>\<open>reduce\<close>: the accumulator is the object under construction, read
  and written under the computed key \<^verbatim>\<open>tx.isin\<close>. The read \<^verbatim>\<open>acc[tx.isin]\<close> sees the
  members of \<^verbatim>\<open>Object.prototype\<close> too: for such a key it is truthy, no aggregate is
  created, and \<^verbatim>\<open>acc[tx.isin].transactions.push\<close> raises.
\<close>

definition mf_group ::
  "engine \<Rightarrow> (string \<times> jsval) list \<Rightarrow> jsval \<Rightarrow> exn + (string \<times> jsval) list" where
  "mf_group E acc tx =
     (let key = to_str E (getq tx ''isin'');
          acc1 = (if \<not> truthy (getq (JObj acc) key)
                  then assoc_set key (JObj
                         [(''isin'', getq tx ''isin''),
                          (''schemeName'', getq tx ''schemeName''),
                          (''transactions'', JArr []),
                          (''totalInvested'', JNum (Fin 0)),
                          (''totalUnits'', JNum (Fin 0))]) acc
                  else acc);
          g = getq (JObj acc1) key
      in case push (getq g ''transactions'') tx of
           Inl e \<Rightarrow> Inl e
         | Inr txs \<Rightarrow>
             let g1 = obj_set g ''transactions'' txs;
                 g2 = (if getq tx ''type'' = JStr ''BUY'' then
                         let h = obj_set g1 ''totalInvested''
                                   (js_add E (getq g1 ''totalInvested'') (getq tx ''amount''))
                         in obj_set h ''totalUnits''
                              (js_add E (getq h ''totalUnits'') (getq tx ''units''))
                       else
                         let h = obj_set g1 ''totalInvested''
                                   (js_sub E (getq g1 ''totalInvested'') (getq tx ''amount''))
                         in obj_set h ''totalUnits''
                              (js_sub E (getq h ''totalUnits'') (getq tx ''units'')))
             in Inr (assoc_set key g2 acc1))"

definition processMFTransactions :: "engine \<Rightarrow> jsval \<Rightarrow> exn + jsval" where
  "processMFTransactions E response =
     (if \<not> truthy response \<or> \<not> truthy (getq response ''mfTransactions'') then
        Inr (JObj
          [(''transactions'', JArr []),
           (''schemes'', JObj []),
           (''error'', JStr ''No transaction data available'')])
      else
        (case array_elems ''forEach'' (getq response ''mfTransactions'') of
           Inl e \<Rightarrow> Inl e
         | Inr schemes \<Rightarrow>
             (case mapM mf_scheme schemes of
                Inl e \<Rightarrow> Inl e
              | Inr tss \<Rightarrow>
                  let transactions = concat tss
                  in case foldM (mf_group E) [] transactions of
                       Inl e \<Rightarrow> Inl e
                     | Inr grouped \<Rightarrow>
                         Inr (JObj
                           [(''transactions'', JArr transactions),
                            (''schemes'', JObj grouped),
                            (''totalTransactions'',
                               JNum (Fin (of_nat (length transactions))))]))))"

subsection \<open>processBankTransactions\<close>

text \<open>
  \<^verbatim>\<open>
  function getTransactionType(typeCode) {
    const types = {1: 'CREDIT', 2: 'DEBIT', 3: 'OPENING', 4: 'INTEREST', 5: 'TDS',
                   6: 'INSTALLMENT', 7: 'CLOSING', 8: 'OTHERS'};
    return types[typeCode] || 'UNKNOWN';
  }
  \<close>
  The read \<^verbatim>\<open>types[typeCode]\<close> sees the members of \<^verbatim>\<open>Object.prototype\<close>: for a code such
  as \<^verbatim>\<open>'constructor'\<close> the function returns the inherited member, not a label.
\<close>

definition getTransactionType :: "engine \<Rightarrow> jsval \<Rightarrow> jsval" where
  "getTransactionType E typeCode =
     jor (getq (JObj
            [(''1'', JStr ''CREDIT''), (''2'', JStr ''DEBIT''), (''3'', JStr ''OPENING''),
             (''4'', JStr ''INTEREST''), (''5'', JStr ''TDS''), (''6'', JStr ''INSTALLMENT''),
             (''7'', JStr ''CLOSING''), (''8'', JStr ''OTHERS'')])
            (to_str E typeCode))
       (JStr ''UNKNOWN'')"

text \<open>
  \<^verbatim>\<open>
  function processBankTransactions(response) {
    if (!response || !response.bankTransactions) {
      return {transactions: [], banks: {}, error: 'No bank transaction data available'};
    }
    const transactions = [];
    response.bankTransactions.forEach(bank => {
      bank.txns.forEach(txn => {
        const [amount, narration, date, type, mode, balance] = txn;
        const transactionType = getTransactionType(type);
        transactions.push({
          bank: bank.bank, amount: parseFloat(amount), narration: narration, date: date,
          type: transactionType, mode: mode, balance: parseFloat(balance)
        });
      });
    });
    const banks = transactions.reduce((acc, tx) => {
      if (!acc[tx.bank]) {
        acc[tx.bank] = {bank: tx.bank, transactions: [], totalCredits: 0, totalDebits: 0,
                        currentBalance: 0};
      }
      acc[tx.bank].transactions.push(tx);
      if (tx.type === 'CREDIT') {
        acc[tx.bank].totalCredits += tx.amount;
      } else if (tx.type === 'DEBIT') {
        acc[tx.bank].totalDebits += tx.amount;
      }
      // Use the latest balance
      if (tx.balance > acc[tx.bank].currentBalance) {
        acc[tx.bank].currentBalance = tx.balance;
      }
      return acc;
    }, {});
    return {transactions, banks, totalTransactions: transactions.length};
  }
  \<close>
\<close>

definition bank_txn :: "engine \<Rightarrow> jsval \<Rightarrow> jsval \<Rightarrow> exn + jsval" where
  "bank_txn E bank txn =
     (case iter_elems txn of
        Inl e \<Rightarrow> Inl e
      | Inr parts \<Rightarrow>
          Inr (JObj
            [(''bank'', getq bank ''bank''),
             (''amount'', JNum (parseFloat (elem parts 0))),
             (''narration'', elem parts 1),
             (''date'', elem parts 2),
             (''type'', getTransactionType E (elem parts 3)),
             (''mode'', elem parts 4),
             (''balance'', JNum (parseFloat (elem parts 5)))]))"

definition bank_record :: "engine \<Rightarrow> jsval \<Rightarrow> exn + jsval list" where
  "bank_record E bank =
     (case get bank ''txns'' of
        Inl e \<Rightarrow> Inl e
      | Inr txns \<Rightarrow>
          (case array_elems ''forEach'' txns of
             Inl e \<Rightarrow> Inl e
           | Inr ts \<Rightarrow> mapM (bank_txn E bank) ts))"

text \<open>
  One step of the \<^verbatim>\<open>reduce\<close>, with the computed key \<^verbatim>\<open>tx.bank\<close>; the read
  \<^verbatim>\<open>acc[tx.bank]\<close> sees the members of \<^verbatim>\<open>Object.prototype\<close> as in the fund case.
\<close>

definition bank_group ::
  "engine \<Rightarrow> (string \<times> jsval) list \<Rightarrow> jsval \<Rightarrow> exn + (string \<times> jsval) list" where
  "bank_group E acc tx =
     (let key = to_str E (getq tx ''bank'');
          acc1 = (if \<not> truthy (getq (JObj acc) key)
                  then assoc_set key (JObj
                         [(''bank'', getq tx ''bank''),
                          (''transactions'', JArr []),
                          (''totalCredits'', JNum (Fin 0)),
                          (''totalDebits'', JNum (Fin 0)),
                          (''currentBalance'', JNum (Fin 0))]) acc
                  else acc);
          g = getq (JObj acc1) key
      in case push (getq g ''transactions'') tx of
           Inl e \<Rightarrow> Inl e
         | Inr txs \<Rightarrow>
             let g1 = obj_set g ''transactions'' txs;
                 g2 = (if getq tx ''type'' = JStr ''CREDIT'' then
                         obj_set g1 ''totalCredits''
                           (js_add E (getq g1 ''totalCredits'') (getq tx ''amount''))
                       else if getq tx ''type'' = JStr ''DEBIT'' then
                         obj_set g1 ''totalDebits''
                           (js_add E (getq g1 ''totalDebits'') (getq tx ''amount''))
                       else g1);
                 g3 = (if js_gt E (getq tx ''balance'') (getq g2 ''currentBalance'')
                       then obj_set g2 ''currentBalance'' (getq tx ''balance'')
                       else g2)
             in Inr (assoc_set key g3 acc1))"

definition processBankTransactions :: "engine \<Rightarrow> jsval \<Rightarrow> exn + jsval" where
  "processBankTransactions E response =
     (if \<not> truthy response \<or> \<not> truthy (getq response ''bankTransactions'') then
        Inr (JObj
          [(''transactions'', JArr []),
           (''banks'', JObj []),
           (''error'', JStr ''No bank transaction data available'')])
      else
        (case array_elems ''forEach'' (getq response ''bankTransactions'') of
           Inl e \<Rightarrow> Inl e
         | Inr banks \<Rightarrow>
             (case mapM (bank_record E) banks of
                Inl e \<Rightarrow> Inl e
              | Inr tss \<Rightarrow>
                  let transactions = concat tss
                  in case foldM (bank_group E) [] transactions of
                       Inl e \<Rightarrow> Inl e
                     | Inr grouped \<Rightarrow>
                         Inr (JObj
                           [(''transactions'', JArr transactions),
                            (''banks'', JObj grouped),
                            (''totalTransactions'',
                               JNum (Fin (of_nat (length transactions))))]))))"

section \<open>Reading results and describing payloads\<close>

text \<open>The value found in a result by following a list of property names.\<close>

fun at_path :: "string list \<Rightarrow> exn + jsval \<Rightarrow> exn + jsval" where
  "at_path ks (Inl e) = Inl e"
| "at_path ks (Inr v) = Inr (foldl getq v ks)"

text \<open>The rational a finite number stands for.\<close>

fun fin_of :: "jsnum \<Rightarrow> rat" where
  "fin_of (Fin q) = q"
| "fin_of _ = 0"

fun is_fin :: "jsnum \<Rightarrow> bool" where
  "is_fin (Fin q) = True"
| "is_fin _ = False"

subsection \<open>Mutual-fund payloads\<close>

text \<open>
  A well-formed mutual-fund payload: a list of scheme records, each with its identifiers
  and a list of tuples \<^verbatim>\<open>[orderType, date, nav, units, amount]\<close> whose units and amount
  are finite numbers. The encoders give the decoded JSON of such a payload.
\<close>

record fund_tuple =
  t_orderType :: jsval
  t_date :: jsval
  t_nav :: jsval
  t_units :: rat
  t_amount :: rat





text \<open>
  In the terms of the payload: a tuple is a purchase when its order type is the number 1;
  the normalized transaction of a tuple; and the tuples of all scheme records with a given
  ISIN, in payload order.
\<close>

definition is_buy :: "fund_tuple \<Rightarrow> bool" where
  "is_buy t = (t_orderType t = JNum (Fin 1))"



text \<open>
  The running total of a column over a list of tuples: from 0, in list order, a purchase
  is added and any other tuple subtracted, with the operators of the code.
\<close>

definition running :: "(fund_tuple \<Rightarrow> rat) \<Rightarrow> fund_tuple list \<Rightarrow> jsnum" where
  "running f ts =
     foldl (\<lambda>total t. if is_buy t then jadd total (Fin (f t)) else jsub total (Fin (f t)))
       (Fin 0) ts"

text \<open>
  The sums of a column over the purchases and over the other tuples, as rationals.
\<close>

definition buy_sum :: "(fund_tuple \<Rightarrow> rat) \<Rightarrow> fund_tuple list \<Rightarrow> rat" where
  "buy_sum f ts = sum_list (map f (filter is_buy ts))"

definition sell_sum :: "(fund_tuple \<Rightarrow> rat) \<Rightarrow> fund_tuple list \<Rightarrow> rat" where
  "sell_sum f ts = sum_list (map f (filter (\<lambda>t. \<not> is_buy t) ts))"




subsection \<open>Bank payloads\<close>

text \<open>
  A well-formed bank payload: a list of bank records, each with the bank's name and a
  list of tuples \<^verbatim>\<open>[amount, narration, date, typeCode, mode, balance]\<close>. The fields of a
  tuple are any values; amount and balance are read with \<^verbatim>\<open>parseFloat\<close>.
\<close>

record bank_tuple =
  bt_amount :: jsval
  bt_narration :: jsval
  bt_date :: jsval
  bt_type :: jsval
  bt_mode :: jsval
  bt_balance :: jsval

record bank_rec =
  br_bank :: string
  br_txns :: "bank_tuple list"

definition enc_bank_tuple :: "bank_tuple \<Rightarrow> jsval" where
  "enc_bank_tuple t =
     JArr [bt_amount t, bt_narration t, bt_date t, bt_type t, bt_mode t, bt_balance t]"

definition enc_bank :: "bank_rec \<Rightarrow> jsval" where
  "enc_bank r =
     JObj [(''bank'', JStr (br_bank r)), (''txns'', JArr (map enc_bank_tuple (br_txns r)))]"

definition enc_bank_payload :: "bank_rec list \<Rightarrow> jsval" where
  "enc_bank_payload rs = JObj [(''bankTransactions'', JArr (map enc_bank rs))]"

text \<open>
  In the terms of the payload: the normalized transaction of a tuple, the balances of all
  tuples of the records of one bank, in order, and the tuples paired with their records.
\<close>

definition bank_tx :: "engine \<Rightarrow> bank_rec \<Rightarrow> bank_tuple \<Rightarrow> jsval" where
  "bank_tx E r t =
     JObj [(''bank'', JStr (br_bank r)),
           (''amount'', JNum (parseFloat (bt_amount t))),
           (''narration'', bt_narration t),
           (''date'', bt_date t),
           (''type'', getTransactionType E (bt_type t)),
           (''mode'', bt_mode t),
           (''balance'', JNum (parseFloat (bt_balance t)))]"

definition bank_balances :: "string \<Rightarrow> bank_rec list \<Rightarrow> jsnum list" where
  "bank_balances k rs =
     concat (map (\<lambda>r. if br_bank r = k then map (\<lambda>t. parseFloat (bt_balance t)) (br_txns r)
                       else []) rs)"

definition bank_pairs :: "bank_rec list \<Rightarrow> (bank_rec \<times> bank_tuple) list" where
  "bank_pairs rs = concat (map (\<lambda>r. map (Pair r) (br_txns r)) rs)"

definition key_balances :: "string \<Rightarrow> (bank_rec \<times> bank_tuple) list \<Rightarrow> jsnum list" where
  "key_balances k ps =
     map (\<lambda>p. parseFloat (bt_balance (snd p))) (filter (\<lambda>p. br_bank (fst p) = k) ps)"

section \<open>Properties\<close>

subsection \<open>Helper facts\<close>

text \<open>A read of a concrete property name is decided by unfolding these.\<close>

lemmas proto_eval = inherited_def proto_names_def

lemma inherited_not_proto: "k \<notin> set proto_names \<Longrightarrow> inherited k = JUndefined"
  by (simp add: inherited_def)

lemma truthy_getq_imp_truthy: "truthy (getq v k) \<Longrightarrow> truthy v"
  by (cases v) (auto split: if_splits)

subsection \<open>CurrencyMath\<close>

text \<open>
  C1 (as stated, refuted): an amount with \<^verbatim>\<open>units\<close> absent and \<^verbatim>\<open>nanos\<close> present does not
  decode to \<open>nanos / 1e9\<close>. The guard on \<^verbatim>\<open>units\<close> returns 0 first: for
  \<^verbatim>\<open>{nanos: 500000000}\<close> the result is 0, not 0.5.
\<close>

theorem currencyToNumber_nanos_only_counterexample:
  "currencyToNumber (JObj [(''nanos'', JNum (Fin 500000000))]) = Fin 0
   \<and> currencyToNumber (JObj [(''nanos'', JNum (Fin 500000000))])
     \<noteq> Fin (0 + 500000000 / 1000000000)"
  by (simp add: currencyToNumber_def proto_eval)

text \<open>
  C1 (amended): when the \<^verbatim>\<open>units\<close> field is present and truthy, the amount decodes to
  \<open>units + nanos / 1e9\<close>, a missing \<^verbatim>\<open>nanos\<close> counting as 0; when the \<^verbatim>\<open>units\<close> field is
  absent or falsy (also the number 0), the amount decodes to 0 whatever \<^verbatim>\<open>nanos\<close> is.
\<close>

theorem currencyToNumber_decodes:
  "(truthy (getq obj ''units'') \<longrightarrow> parseFloat (getq obj ''units'') = Fin u \<longrightarrow>
      parseFloat (getq obj ''nanos'') = Fin n \<longrightarrow>
      currencyToNumber obj = Fin (u + n / 1000000000))
   \<and> (truthy (getq obj ''units'') \<longrightarrow> parseFloat (getq obj ''units'') = Fin u \<longrightarrow>
      getq obj ''nanos'' = JUndefined \<longrightarrow>
      currencyToNumber obj = Fin u)
   \<and> (\<not> truthy (getq obj ''units'') \<longrightarrow> currencyToNumber obj = Fin 0)"
proof (intro conjI impI)
  assume t: "truthy (getq obj ''units'')"
    and u: "parseFloat (getq obj ''units'') = Fin u"
    and n: "parseFloat (getq obj ''nanos'') = Fin n"
  from t have "truthy obj" by (rule truthy_getq_imp_truthy)
  with t u n show "currencyToNumber obj = Fin (u + n / 1000000000)"
    by (simp add: currencyToNumber_def num_or_def)
next
  assume t: "truthy (getq obj ''units'')"
    and u: "parseFloat (getq obj ''units'') = Fin u"
    and n: "getq obj ''nanos'' = JUndefined"
  from t have "truthy obj" by (rule truthy_getq_imp_truthy)
  with t u n show "currencyToNumber obj = Fin u"
    by (simp add: currencyToNumber_def num_or_def)
next
  assume "\<not> truthy (getq obj ''units'')"
  then show "currencyToNumber obj = Fin 0"
    by (simp add: currencyToNumber_def)
qed

theorem currencyToNumber_decodes_witness:
  "truthy (getq (JObj [(''currencyCode'', JStr ''INR''), (''units'', JStr ''1500000''),
        (''nanos'', JNum (Fin 250000000))]) ''units'')
   \<and> parseFloat (JStr ''1500000'') = Fin 1500000
   \<and> currencyToNumber (JObj [(''currencyCode'', JStr ''INR''), (''units'', JStr ''1500000''),
        (''nanos'', JNum (Fin 250000000))]) = Fin (1500000 + 250000000 / 1000000000)
   \<and> getq (JObj [(''currencyCode'', JStr ''INR''), (''units'', JStr ''1500000'')]) ''nanos''
        = JUndefined
   \<and> currencyToNumber (JObj [(''currencyCode'', JStr ''INR''), (''units'', JStr ''1500000'')])
        = Fin 1500000
   \<and> \<not> truthy (getq (JObj [(''units'', JNum (Fin 0)), (''nanos'', JNum (Fin 250000000))])
        ''units'')
   \<and> currencyToNumber (JObj [(''units'', JNum (Fin 0)), (''nanos'', JNum (Fin 250000000))])
        = Fin 0"
  using
    currencyToNumber_decodes [of "JObj [(''currencyCode'', JStr ''INR''),
      (''units'', JStr ''1500000''), (''nanos'', JNum (Fin 250000000))]" 1500000 250000000]
    currencyToNumber_decodes [of "JObj [(''currencyCode'', JStr ''INR''),
      (''units'', JStr ''1500000'')]" 1500000 0]
    currencyToNumber_decodes [of "JObj [(''units'', JNum (Fin 0)),
      (''nanos'', JNum (Fin 250000000))]" 0 0]
  by (simp add: str_parse_float_def parse_unsigned_def is_digit_def is_ws_def dec_def
      proto_eval)

text \<open>
  C9: \<^verbatim>\<open>calculatePercentageChange(current, previous)\<close> is 0 when \<^verbatim>\<open>previous\<close> is 0,
  whatever \<^verbatim>\<open>current\<close> is, and \<open>(current - previous) / previous * 100\<close> otherwise; on finite
  numbers that is the exact quotient.
\<close>

theorem calculatePercentageChange_spec:
  "calculatePercentageChange current (Fin 0) = Fin 0
   \<and> (previous \<noteq> Fin 0 \<longrightarrow>
        calculatePercentageChange current previous
          = jmul (jdiv (jsub current previous) previous) (Fin 100))
   \<and> (p \<noteq> 0 \<longrightarrow>
        calculatePercentageChange (Fin c) (Fin p) = Fin ((c - p) / p * 100))"
  by (simp add: calculatePercentageChange_def jsub_def)

theorem calculatePercentageChange_spec_witness:
  "(150::rat) \<noteq> 0 \<and> Fin 100 \<noteq> Fin 0
   \<and> calculatePercentageChange (Fin 150) (Fin 0) = Fin 0
   \<and> calculatePercentageChange (Fin 150) (Fin 100) = Fin 50
   \<and> calculatePercentageChange (Fin 50) (Fin 100) = Fin (- 50)"
  using calculatePercentageChange_spec [of "Fin 150" "Fin 100" 100 150]
    calculatePercentageChange_spec [of "Fin 50" "Fin 100" 100 50]
  by (simp add: jsub_def)

subsection \<open>SessionClient: helper facts\<close>

lemmas client_defs = initialize_def authenticate_def listTools_def callTool_def axios_post_def

lemma perform_sent:
  "sent (snd (perform E net op w)) = sent w \<or> (\<exists>req. sent (snd (perform E net op w)) = sent w @ [req])"
  by (cases op) (auto simp: client_defs Let_def split: outcome.splits sum.splits if_splits)

lemma callTool_sends_one:
  "sent (snd (callTool E net now toolName arg w))
     = sent w @ [callTool_request (this w) now toolName (default_arg (JObj []) arg)]"
  by (simp add: callTool_def axios_post_def Let_def split: outcome.splits sum.splits)

lemma perform_auth_mono:
  "isAuthenticated (this w) \<Longrightarrow> isAuthenticated (this (snd (perform E net op w)))"
  by (cases op) (auto simp: client_defs Let_def split: outcome.splits sum.splits if_splits)

lemma perform_auth_only_authenticate:
  "\<not> isAuthenticated (this w) \<Longrightarrow> isAuthenticated (this (snd (perform E net op w))) \<Longrightarrow>
     \<exists>phoneNumber. op = Authenticate phoneNumber \<and> fst (perform E net op w) = Inr (JBool True)
        \<and> truthy (sessionId (this w))"
  by (cases op) (auto simp: client_defs Let_def split: outcome.splits sum.splits if_splits)

lemma perform_sessionId_only_initialize:
  "sessionId (this (snd (perform E net op w))) \<noteq> sessionId (this w) \<Longrightarrow> op = Initialize"
  by (cases op) (auto simp: client_defs Let_def split: outcome.splits sum.splits if_splits)

lemma trace_Cons: "trace E net ops w = w # tl (trace E net ops w)"
  by (cases ops) simp_all

lemma run_auth_mono:
  "isAuthenticated (this w) \<Longrightarrow> isAuthenticated (this (run E net ops w))"
  by (induction ops arbitrary: w) (simp_all add: perform_auth_mono)

lemma flips_all_True:
  "list_all (\<lambda>x. x) xs \<Longrightarrow> flips False True xs = 0"
  by (induction xs rule: induct_list012) simp_all

lemma trace_auth_all:
  "isAuthenticated (this w) \<Longrightarrow> list_all (\<lambda>x. x) (map (\<lambda>s. isAuthenticated (this s)) (trace E net ops w))"
  by (induction ops arbitrary: w) (simp_all add: perform_auth_mono)

lemma trace_no_drop:
  "flips True False (map (\<lambda>s. isAuthenticated (this s)) (trace E net ops w)) = 0"
proof (induction ops arbitrary: w)
  case Nil
  show ?case by simp
next
  case (Cons op ops)
  let ?w' = "snd (perform E net op w)"
  obtain rest where t: "trace E net ops ?w' = ?w' # rest"
    using trace_Cons by blast
  from Cons.IH [of ?w'] perform_auth_mono [of w E net op] show ?case
    by (auto simp: t)
qed

lemma trace_one_rise:
  "flips False True (map (\<lambda>s. isAuthenticated (this s)) (trace E net ops w)) \<le> 1"
proof (induction ops arbitrary: w)
  case Nil
  show ?case by simp
next
  case (Cons op ops)
  let ?w' = "snd (perform E net op w)"
  obtain rest where t: "trace E net ops ?w' = ?w' # rest"
    using trace_Cons by blast
  show ?case
  proof (cases "isAuthenticated (this ?w')")
    case True
    then have "flips False True (map (\<lambda>s. isAuthenticated (this s)) (trace E net ops ?w')) = 0"
      using flips_all_True trace_auth_all by blast
    then show ?thesis by (simp add: t)
  next
    case False
    with Cons.IH [of ?w'] show ?thesis by (simp add: t)
  qed
qed

subsection \<open>SessionClient: claims\<close>

text \<open>
  C2 (the code departs from the claim): \<^verbatim>\<open>callTool\<close> on a client that was never
  initialised does not fail before the network. For every tool name and arguments it
  sends exactly one request, with the session header \<^verbatim>\<open>null\<close>, and what it returns is
  decided by the answer: a server that answers with a result makes the call succeed.
  \<^verbatim>\<open>authenticate\<close> has the check of \<^verbatim>\<open>this.sessionId\<close> that \<^verbatim>\<open>callTool\<close> lacks.
\<close>

theorem callTool_before_initialize_sends_request:
  "sent (snd (callTool E net now toolName arg \<lparr>this = new_MCPClient u, sent = []\<rparr>))
     = [callTool_request (new_MCPClient u) now toolName (default_arg (JObj []) arg)]
   \<and> req_headers (callTool_request (new_MCPClient u) now toolName (default_arg (JObj []) arg))
     = [(''MCP-Session-ID'', JNull)]
   \<and> fst (callTool E
        (always (Resolved \<lparr>status = 200, headers = [],
           data = JObj [(''result'', JObj [(''content'', JArr [])])]\<rparr>))
        now toolName arg \<lparr>this = new_MCPClient u, sent = []\<rparr>)
     = Inr (JObj [(''content'', JArr [])])"
proof (intro conjI)
  show "sent (snd (callTool E net now toolName arg \<lparr>this = new_MCPClient u, sent = []\<rparr>))
     = [callTool_request (new_MCPClient u) now toolName (default_arg (JObj []) arg)]"
    by (simp add: callTool_sends_one)
  show "req_headers (callTool_request (new_MCPClient u) now toolName (default_arg (JObj []) arg))
     = [(''MCP-Session-ID'', JNull)]"
    by (simp add: callTool_request_def new_MCPClient_def)
  show "fst (callTool E
        (always (Resolved \<lparr>status = 200, headers = [],
           data = JObj [(''result'', JObj [(''content'', JArr [])])]\<rparr>))
        now toolName arg \<lparr>this = new_MCPClient u, sent = []\<rparr>)
     = Inr (JObj [(''content'', JArr [])])"
    by (simp add: callTool_def axios_post_def always_def read_tool_response_def get_def
        js_gt_def Let_def proto_eval)
qed

text \<open>
  C5 (as stated, refuted): a response with status 204 is a 2xx response, and
  \<^verbatim>\<open>authenticate\<close> fails on it and leaves \<^verbatim>\<open>isAuthenticated\<close> false, because the code
  compares the status with 200.
\<close>

theorem authenticate_status_204_counterexample:
  "truthy (sessionId \<lparr>baseUrl = ''http://localhost:8080/mcp/stream'', sessionId = JStr ''s1'',
      isAuthenticated = False\<rparr>)
   \<and> fst (authenticate (always (Resolved \<lparr>status = 204, headers = [], data = JNull\<rparr>)) JUndefined
        \<lparr>this = \<lparr>baseUrl = ''http://localhost:8080/mcp/stream'', sessionId = JStr ''s1'',
           isAuthenticated = False\<rparr>, sent = []\<rparr>)
     = Inl (Error ''MCP authentication failed'')
   \<and> \<not> isAuthenticated (this (snd (authenticate
        (always (Resolved \<lparr>status = 204, headers = [], data = JNull\<rparr>)) JUndefined
        \<lparr>this = \<lparr>baseUrl = ''http://localhost:8080/mcp/stream'', sessionId = JStr ''s1'',
           isAuthenticated = False\<rparr>, sent = []\<rparr>)))"
  by (simp add: authenticate_def axios_post_def always_def Let_def)

text \<open>
  C5 (amended): on a client whose \<^verbatim>\<open>sessionId\<close> is set, \<^verbatim>\<open>authenticate\<close> sends one login
  request; a response with status exactly 200 yields \<^verbatim>\<open>true\<close> and sets
  \<^verbatim>\<open>isAuthenticated\<close>; a response with any other status, or a rejected call, yields the
  authentication error and leaves the client as it was.
\<close>

theorem authenticate_status_200_only:
  assumes "truthy (sessionId (this w))"
    and "req = login_request (this w) (default_arg (JStr ''9999999999'') arg)"
  shows "(net (sent w) req = Resolved r \<and> status r = 200 \<longrightarrow>
            fst (authenticate net arg w) = Inr (JBool True)
            \<and> this (snd (authenticate net arg w)) = (this w)\<lparr>isAuthenticated := True\<rparr>
            \<and> sent (snd (authenticate net arg w)) = sent w @ [req])
       \<and> (net (sent w) req = Resolved r \<and> status r \<noteq> 200 \<longrightarrow>
            fst (authenticate net arg w) = Inl (Error ''MCP authentication failed'')
            \<and> this (snd (authenticate net arg w)) = this w
            \<and> sent (snd (authenticate net arg w)) = sent w @ [req])
       \<and> (net (sent w) req = Rejected msg resp \<longrightarrow>
            fst (authenticate net arg w) = Inl (Error ''MCP authentication failed'')
            \<and> this (snd (authenticate net arg w)) = this w
            \<and> sent (snd (authenticate net arg w)) = sent w @ [req])"
  using assms by (simp add: authenticate_def axios_post_def Let_def)

theorem authenticate_status_200_only_witness:
  "truthy (sessionId (this \<lparr>this = \<lparr>baseUrl = ''http://localhost:8080/mcp/stream'',
        sessionId = JStr ''s1'', isAuthenticated = False\<rparr>, sent = []\<rparr>))
   \<and> fst (authenticate (scripted [Resolved \<lparr>status = 200, headers = [], data = JNull\<rparr>])
          (JStr ''2222222222'')
          \<lparr>this = \<lparr>baseUrl = ''http://localhost:8080/mcp/stream'',
             sessionId = JStr ''s1'', isAuthenticated = False\<rparr>, sent = []\<rparr>)
       = Inr (JBool True)
   \<and> isAuthenticated (this (snd (authenticate
          (scripted [Resolved \<lparr>status = 200, headers = [], data = JNull\<rparr>])
          (JStr ''2222222222'')
          \<lparr>this = \<lparr>baseUrl = ''http://localhost:8080/mcp/stream'',
             sessionId = JStr ''s1'', isAuthenticated = False\<rparr>, sent = []\<rparr>)))
   \<and> url (login_request \<lparr>baseUrl = ''http://localhost:8080/mcp/stream'',
          sessionId = JStr ''s1'', isAuthenticated = False\<rparr> (JStr ''2222222222''))
       = ''http://localhost:8080/login''
   \<and> fst (authenticate (scripted [Resolved \<lparr>status = 201, headers = [], data = JNull\<rparr>])
          (JStr ''2222222222'')
          \<lparr>this = \<lparr>baseUrl = ''http://localhost:8080/mcp/stream'',
             sessionId = JStr ''s1'', isAuthenticated = False\<rparr>, sent = []\<rparr>)
       = Inl (Error ''MCP authentication failed'')
   \<and> fst (authenticate (scripted [])
          (JStr ''2222222222'')
          \<lparr>this = \<lparr>baseUrl = ''http://localhost:8080/mcp/stream'',
             sessionId = JStr ''s1'', isAuthenticated = False\<rparr>, sent = []\<rparr>)
       = Inl (Error ''MCP authentication failed'')"
  using
    authenticate_status_200_only [of
      "\<lparr>this = \<lparr>baseUrl = ''http://localhost:8080/mcp/stream'',
         sessionId = JStr ''s1'', isAuthenticated = False\<rparr>, sent = []\<rparr>"
      "login_request \<lparr>baseUrl = ''http://localhost:8080/mcp/stream'',
         sessionId = JStr ''s1'', isAuthenticated = False\<rparr> (JStr ''2222222222'')"
      "JStr ''2222222222''"
      "scripted [Resolved \<lparr>status = 200, headers = [], data = JNull\<rparr>]"
      "\<lparr>status = 200, headers = [], data = JNull\<rparr>" "''''" None]
    authenticate_status_200_only [of
      "\<lparr>this = \<lparr>baseUrl = ''http://localhost:8080/mcp/stream'',
         sessionId = JStr ''s1'', isAuthenticated = False\<rparr>, sent = []\<rparr>"
      "login_request \<lparr>baseUrl = ''http://localhost:8080/mcp/stream'',
         sessionId = JStr ''s1'', isAuthenticated = False\<rparr> (JStr ''2222222222'')"
      "JStr ''2222222222''"
      "scripted [Resolved \<lparr>status = 201, headers = [], data = JNull\<rparr>]"
      "\<lparr>status = 201, headers = [], data = JNull\<rparr>" "''''" None]
    authenticate_status_200_only [of
      "\<lparr>this = \<lparr>baseUrl = ''http://localhost:8080/mcp/stream'',
         sessionId = JStr ''s1'', isAuthenticated = False\<rparr>, sent = []\<rparr>"
      "login_request \<lparr>baseUrl = ''http://localhost:8080/mcp/stream'',
         sessionId = JStr ''s1'', isAuthenticated = False\<rparr> (JStr ''2222222222'')"
      "JStr ''2222222222''"
      "scripted []"
      "\<lparr>status = 200, headers = [], data = JNull\<rparr>" "''Network Error''" None]
  by (simp add: scripted_def default_arg_def login_request_def)

text \<open>
  C6 (as stated, refuted): \<^verbatim>\<open>sessionId\<close> does change once set. A second \<^verbatim>\<open>initialize\<close>
  whose response carries another session header overwrites it: \<open>A\<close> becomes \<open>B\<close>.
\<close>

theorem initialize_twice_counterexample:
  "sessionId (this (snd (initialize
      (scripted
        [Resolved \<lparr>status = 200, headers = [(''mcp-session-id'', JStr ''A'')], data = JNull\<rparr>,
         Resolved \<lparr>status = 200, headers = [(''mcp-session-id'', JStr ''B'')], data = JNull\<rparr>])
      \<lparr>this = new_MCPClient None, sent = []\<rparr>))) = JStr ''A''
   \<and> sessionId (this (snd (initialize
      (scripted
        [Resolved \<lparr>status = 200, headers = [(''mcp-session-id'', JStr ''A'')], data = JNull\<rparr>,
         Resolved \<lparr>status = 200, headers = [(''mcp-session-id'', JStr ''B'')], data = JNull\<rparr>])
      (snd (initialize
        (scripted
          [Resolved \<lparr>status = 200, headers = [(''mcp-session-id'', JStr ''A'')], data = JNull\<rparr>,
           Resolved \<lparr>status = 200, headers = [(''mcp-session-id'', JStr ''B'')], data = JNull\<rparr>])
        \<lparr>this = new_MCPClient None, sent = []\<rparr>))))) = JStr ''B''"
  by (simp add: initialize_def axios_post_def scripted_def Let_def new_MCPClient_def
      initialize_request_def)

text \<open>
  C6 (amended): along every sequence of client operations \<^verbatim>\<open>isAuthenticated\<close> never goes
  from true to false and goes from false to true at most once, and a step that makes it
  true is an \<^verbatim>\<open>authenticate\<close> that returned \<^verbatim>\<open>true\<close>. Only \<^verbatim>\<open>initialize\<close> changes
  \<^verbatim>\<open>sessionId\<close>, and every \<^verbatim>\<open>initialize\<close> whose transport call resolves sets it to the
  response's \<^verbatim>\<open>mcp-session-id\<close> header, whatever it was before.
\<close>

theorem session_state_transitions:
  "flips True False (map (\<lambda>s. isAuthenticated (this s)) (trace E net ops w)) = 0
   \<and> flips False True (map (\<lambda>s. isAuthenticated (this s)) (trace E net ops w)) \<le> 1
   \<and> (\<not> isAuthenticated (this w) \<and> isAuthenticated (this (snd (perform E net op w))) \<longrightarrow>
        (\<exists>phoneNumber. op = Authenticate phoneNumber
           \<and> fst (perform E net op w) = Inr (JBool True)))
   \<and> (sessionId (this (snd (perform E net op w))) \<noteq> sessionId (this w) \<longrightarrow> op = Initialize)
   \<and> (net (sent w) (initialize_request (this w)) = Resolved r \<longrightarrow>
        sessionId (this (snd (perform E net Initialize w)))
          = getq (JObj (headers r)) ''mcp-session-id'')"
proof (intro conjI impI)
  show "flips True False (map (\<lambda>s. isAuthenticated (this s)) (trace E net ops w)) = 0"
    by (rule trace_no_drop)
  show "flips False True (map (\<lambda>s. isAuthenticated (this s)) (trace E net ops w)) \<le> 1"
    by (rule trace_one_rise)
next
  assume "\<not> isAuthenticated (this w) \<and> isAuthenticated (this (snd (perform E net op w)))"
  then show "\<exists>phoneNumber. op = Authenticate phoneNumber
      \<and> fst (perform E net op w) = Inr (JBool True)"
    using perform_auth_only_authenticate by blast
next
  assume "sessionId (this (snd (perform E net op w))) \<noteq> sessionId (this w)"
  then show "op = Initialize" by (rule perform_sessionId_only_initialize)
next
  assume "net (sent w) (initialize_request (this w)) = Resolved r"
  then show "sessionId (this (snd (perform E net Initialize w)))
      = getq (JObj (headers r)) ''mcp-session-id''"
    by (simp add: initialize_def axios_post_def Let_def)
qed

theorem session_state_transitions_witness:
  "\<not> isAuthenticated (this \<lparr>this = \<lparr>baseUrl = ''http://localhost:8080/mcp/stream'',
        sessionId = JStr ''A'', isAuthenticated = False\<rparr>, sent = []\<rparr>)
   \<and> isAuthenticated (this (snd (perform null_engine
        (always (Resolved \<lparr>status = 200, headers = [(''mcp-session-id'', JStr ''B'')],
           data = JNull\<rparr>))
        (Authenticate JUndefined)
        \<lparr>this = \<lparr>baseUrl = ''http://localhost:8080/mcp/stream'',
           sessionId = JStr ''A'', isAuthenticated = False\<rparr>, sent = []\<rparr>)))
   \<and> fst (perform null_engine
        (always (Resolved \<lparr>status = 200, headers = [(''mcp-session-id'', JStr ''B'')],
           data = JNull\<rparr>))
        (Authenticate JUndefined)
        \<lparr>this = \<lparr>baseUrl = ''http://localhost:8080/mcp/stream'',
           sessionId = JStr ''A'', isAuthenticated = False\<rparr>, sent = []\<rparr>) = Inr (JBool True)
   \<and> sessionId (this (snd (perform null_engine
        (always (Resolved \<lparr>status = 200, headers = [(''mcp-session-id'', JStr ''B'')],
           data = JNull\<rparr>))
        Initialize
        \<lparr>this = \<lparr>baseUrl = ''http://localhost:8080/mcp/stream'',
           sessionId = JStr ''A'', isAuthenticated = False\<rparr>, sent = []\<rparr>))) = JStr ''B''
   \<and> flips False True (map (\<lambda>s. isAuthenticated (this s)) (trace null_engine
        (always (Resolved \<lparr>status = 200, headers = [(''mcp-session-id'', JStr ''B'')],
           data = JNull\<rparr>))
        [ListTools, Authenticate JUndefined, Initialize, Authenticate JUndefined]
        \<lparr>this = \<lparr>baseUrl = ''http://localhost:8080/mcp/stream'',
           sessionId = JStr ''A'', isAuthenticated = False\<rparr>, sent = []\<rparr>)) = 1
   \<and> flips True False (map (\<lambda>s. isAuthenticated (this s)) (trace null_engine
        (always (Resolved \<lparr>status = 200, headers = [(''mcp-session-id'', JStr ''B'')],
           data = JNull\<rparr>))
        [ListTools, Authenticate JUndefined, Initialize, Authenticate JUndefined]
        \<lparr>this = \<lparr>baseUrl = ''http://localhost:8080/mcp/stream'',
           sessionId = JStr ''A'', isAuthenticated = False\<rparr>, sent = []\<rparr>)) = 0"
  using
    session_state_transitions [of null_engine
      "always (Resolved \<lparr>status = 200, headers = [(''mcp-session-id'', JStr ''B'')],
           data = JNull\<rparr>)"
      "[ListTools, Authenticate JUndefined, Initialize, Authenticate JUndefined]"
      "\<lparr>this = \<lparr>baseUrl = ''http://localhost:8080/mcp/stream'',
           sessionId = JStr ''A'', isAuthenticated = False\<rparr>, sent = []\<rparr>"
      "Authenticate JUndefined"
      "\<lparr>status = 200, headers = [(''mcp-session-id'', JStr ''B'')], data = JNull\<rparr>"]
  by (simp add: always_def authenticate_def initialize_def listTools_def axios_post_def
      default_arg_def get_def Let_def)

text \<open>
  Where \<^verbatim>\<open>callTool\<close> does return the result as it is: the envelope (an object) carries no
  error, and the result is absent, or its content is absent, or the content's
  \<^verbatim>\<open>length\<close> is not greater than 0, or the first content item is a value other than
  \<^verbatim>\<open>null\<close> and \<^verbatim>\<open>undefined\<close> that is not of type \<^verbatim>\<open>text\<close> or has no (or an empty)
  \<^verbatim>\<open>text\<close> field.
\<close>

lemma callTool_falls_through:
  assumes "net (sent w) (callTool_request (this w) now toolName (default_arg (JObj []) arg))
             = Resolved r"
    and "\<not> nullish (data r)"
    and "\<not> truthy (getq (data r) ''error'')"
    and "result = getq (data r) ''result''"
    and "\<not> truthy result
         \<or> \<not> truthy (getq result ''content'')
         \<or> \<not> js_gt E (getq (getq result ''content'') ''length'') (JNum (Fin 0))
         \<or> (\<not> nullish (index0 (getq result ''content''))
              \<and> (getq (index0 (getq result ''content'')) ''type'' \<noteq> JStr ''text''
                   \<or> \<not> truthy (getq (index0 (getq result ''content'')) ''text'')))"
  shows "fst (callTool E net now toolName arg w) = Inr result"
proof -
  have "read_tool_response E r = Inr result"
    using assms(2-5)
    by (auto simp: read_tool_response_def get_def Let_def split: sum.splits)
  with assms(1) show ?thesis
    by (simp add: callTool_def axios_post_def Let_def)
qed

text \<open>
  C10 (the code departs from the claim): a first content item that is \<^verbatim>\<open>null\<close> is not
  textual, and a content that is not a list but has a positive \<^verbatim>\<open>length\<close> is no content
  list; in both cases \<^verbatim>\<open>callTool\<close> does not return the result but fails, because
  \<^verbatim>\<open>content.type\<close> is read from \<^verbatim>\<open>null\<close> or \<^verbatim>\<open>undefined\<close> and the \<^verbatim>\<open>TypeError\<close> is
  rethrown by the \<^verbatim>\<open>catch\<close>. The reads before it are guarded
  (\<^verbatim>\<open>result && result.content && result.content.length > 0\<close>); this one is not.
\<close>

theorem callTool_null_content_item_raises:
  "fst (callTool E
      (always (Resolved \<lparr>status = 200, headers = [],
         data = JObj [(''result'', JObj [(''content'', JArr [JNull])])]\<rparr>))
      now toolName arg w)
     = Inl (ToolCallFailed (TypeError ''type''))
   \<and> fst (callTool E
      (always (Resolved \<lparr>status = 200, headers = [],
         data = JObj [(''result'', JObj [(''content'', JObj [(''length'', JNum (Fin 1))])])]\<rparr>))
      now toolName arg w)
     = Inl (ToolCallFailed (TypeError ''type''))"
  by (simp add: callTool_def axios_post_def always_def read_tool_response_def get_def
      js_gt_def Let_def proto_eval)

theorem callTool_null_content_item_raises_witness:
  "fst (callTool null_engine
      (always (Resolved \<lparr>status = 200, headers = [],
         data = JObj [(''result'', JObj [(''content'', JArr [JNull])])]\<rparr>))
      7 (JStr ''fetch_net_worth'') JUndefined
      \<lparr>this = \<lparr>baseUrl = ''http://localhost:8080/mcp/stream'', sessionId = JStr ''A'',
         isAuthenticated = True\<rparr>, sent = []\<rparr>)
     = Inl (ToolCallFailed (TypeError ''type''))"
  using callTool_null_content_item_raises [of null_engine 7 "JStr ''fetch_net_worth''" JUndefined
      "\<lparr>this = \<lparr>baseUrl = ''http://localhost:8080/mcp/stream'', sessionId = JStr ''A'',
         isAuthenticated = True\<rparr>, sent = []\<rparr>"]
  by simp

subsection \<open>Normalizers: helper facts\<close>

lemmas norm_defs = processMFTransactions_def processBankTransactions_def processCreditData_def
  processEPFData_def processNetWorthData_def mf_scheme_def mf_txn_def bank_record_def bank_txn_def
  get_def jor_def elem_def

lemmas parse_defs = str_parse_float_def parse_unsigned_def is_digit_def is_ws_def dec_def

lemma mapM_map_Inr:
  "(\<And>x. x \<in> set xs \<Longrightarrow> f (h x) = Inr (g x)) \<Longrightarrow> mapM f (map h xs) = Inr (map g xs)"
  by (induction xs) simp_all

lemma map_of_assoc_set:
  "map_of (assoc_set k v acc) k' = (if k' = k then Some v else map_of acc k')"
  by (induction acc) auto


lemma foldM_snoc:
  "foldM f acc (xs @ [x]) = (case foldM f acc xs of Inl e \<Rightarrow> Inl e | Inr a \<Rightarrow> f a x)"
  by (induction xs arbitrary: acc) (simp_all split: sum.splits)





lemma running_snoc:
  "running f (ts @ [t]) =
     (if is_buy t then jadd (running f ts) (Fin (f t)) else jsub (running f ts) (Fin (f t)))"
  by (simp add: running_def)







lemma digit_char:
  assumes "d < 10"
  shows "is_digit (''0123456789'' ! d)" and "(of_char (''0123456789'' ! d) :: nat) = 48 + d"
proof -
  from assms have "d = 0 \<or> d = 1 \<or> d = 2 \<or> d = 3 \<or> d = 4 \<or> d = 5 \<or> d = 6 \<or> d = 7
      \<or> d = 8 \<or> d = 9"
    by arith
  then show "is_digit (''0123456789'' ! d)" and "(of_char (''0123456789'' ! d) :: nat) = 48 + d"
    by (auto simp: is_digit_def)
qed

lemma dec_snoc: "dec (ds @ [c]) = 10 * dec ds + ((of_char c :: nat) - 48)"
  by (simp add: dec_def)

lemma nat_to_string_digits:
  "nat_to_string n \<noteq> [] \<and> (\<forall>c \<in> set (nat_to_string n). is_digit c)
     \<and> dec (nat_to_string n) = n"
proof (induction n rule: nat_to_string.induct)
  case (1 n)
  show ?case
  proof (cases "n < 10")
    case True
    then show ?thesis
      by (subst (1 2 3) nat_to_string.simps) (simp add: digit_char dec_def)
  next
    case False
    have m: "n mod 10 < 10" by simp
    from False 1 have ih: "nat_to_string (n div 10) \<noteq> []"
        "\<forall>c \<in> set (nat_to_string (n div 10)). is_digit c"
        "dec (nat_to_string (n div 10)) = n div 10"
      by auto
    from False have e: "nat_to_string n
        = nat_to_string (n div 10) @ [''0123456789'' ! (n mod 10)]"
      by (subst nat_to_string.simps) simp
    show ?thesis
      unfolding e using ih digit_char [OF m] by (simp add: dec_snoc del: nth_Cons_numeral)
  qed
qed

lemma str_parse_float_digits:
  assumes "ds \<noteq> []" and "\<forall>c \<in> set ds. is_digit c"
  shows "str_parse_float ds = Fin (of_nat (dec ds))"
proof -
  from assms obtain c t where ds: "ds = c # t" by (cases ds) auto
  with assms(2) have c: "is_digit c" by simp
  then have nws: "\<not> is_ws c" and nm: "c \<noteq> CHR ''-''" and np: "c \<noteq> CHR ''+''"
      and ni: "c \<noteq> CHR ''I''"
    by (auto simp: is_digit_def is_ws_def)
  from assms(2) have tw: "takeWhile is_digit ds = ds" and dw: "dropWhile is_digit ds = []"
    by simp_all
  from ni ds have inf: "take 8 ds \<noteq> ''Infinity''" by auto
  have "parse_unsigned ds = Fin (of_nat (dec ds))"
    unfolding parse_unsigned_def Let_def tw dw using inf assms(1) by (simp add: dec_def)
  with nws nm np ds show ?thesis
    by (simp add: str_parse_float_def)
qed

text \<open>\<^verbatim>\<open>parseFloat\<close> reads the decimal string of a natural number as that number.\<close>

lemma parseFloat_nat_to_string: "parseFloat (JStr (nat_to_string n)) = Fin (of_nat n)"
  using nat_to_string_digits [of n] str_parse_float_digits [of "nat_to_string n"] by simp

lemma bank_txn_enc: "bank_txn E (enc_bank r) (enc_bank_tuple t) = Inr (bank_tx E r t)"
  by (simp add: bank_txn_def enc_bank_def enc_bank_tuple_def bank_tx_def elem_def)

lemma bank_record_enc: "bank_record E (enc_bank r) = Inr (map (bank_tx E r) (br_txns r))"
proof -
  have "get (enc_bank r) ''txns'' = Inr (JArr (map enc_bank_tuple (br_txns r)))"
    by (simp add: get_def enc_bank_def)
  then show ?thesis
    by (simp add: bank_record_def mapM_map_Inr bank_txn_enc)
qed

lemma bank_flat_pairs:
  "concat (map (\<lambda>r. map (bank_tx E r) (br_txns r)) rs)
     = map (\<lambda>p. bank_tx E (fst p) (snd p)) (bank_pairs rs)"
  by (induction rs) (simp_all add: bank_pairs_def comp_def)

lemma processBank_enc:
  "processBankTransactions E (enc_bank_payload rs) =
     (case foldM (bank_group E) [] (map (\<lambda>p. bank_tx E (fst p) (snd p)) (bank_pairs rs)) of
        Inl e \<Rightarrow> Inl e
      | Inr grouped \<Rightarrow>
          Inr (JObj
            [(''transactions'', JArr (map (\<lambda>p. bank_tx E (fst p) (snd p)) (bank_pairs rs))),
             (''banks'', JObj grouped),
             (''totalTransactions'', JNum (Fin (of_nat (length (bank_pairs rs)))))]))"
proof -
  have "mapM (bank_record E) (map enc_bank rs)
      = Inr (map (\<lambda>r. map (bank_tx E r) (br_txns r)) rs)"
    by (rule mapM_map_Inr) (rule bank_record_enc)
  then show ?thesis
    by (simp add: processBankTransactions_def enc_bank_payload_def Let_def bank_flat_pairs
        split: sum.splits)
qed

lemma bank_group_fresh:
  assumes "map_of acc (br_bank r) = None" and "br_bank r \<notin> set proto_names"
  shows "\<exists>A kvs. bank_group E acc (bank_tx E r t) = Inr A
     \<and> map_of A (br_bank r) = Some (JObj kvs)
     \<and> getq (JObj kvs) ''transactions'' = JArr [bank_tx E r t]
     \<and> getq (JObj kvs) ''currentBalance''
         = (if jgt (parseFloat (bt_balance t)) (Fin 0) then JNum (parseFloat (bt_balance t))
            else JNum (Fin 0))
     \<and> (\<forall>k'. k' \<noteq> br_bank r \<longrightarrow> map_of A k' = map_of acc k')"
  using assms
  by (simp add: bank_group_def bank_tx_def Let_def map_of_assoc_set js_gt_def
      inherited_not_proto)

lemma bank_group_seen:
  assumes "map_of acc (br_bank r) = Some (JObj kvs)"
    and "getq (JObj kvs) ''transactions'' = JArr txs"
  shows "\<exists>A kvs'. bank_group E acc (bank_tx E r t) = Inr A
     \<and> map_of A (br_bank r) = Some (JObj kvs')
     \<and> getq (JObj kvs') ''transactions'' = JArr (txs @ [bank_tx E r t])
     \<and> getq (JObj kvs') ''currentBalance''
         = (if js_gt E (JNum (parseFloat (bt_balance t))) (getq (JObj kvs) ''currentBalance'')
            then JNum (parseFloat (bt_balance t))
            else getq (JObj kvs) ''currentBalance'')
     \<and> (\<forall>k'. k' \<noteq> br_bank r \<longrightarrow> map_of A k' = map_of acc k')"
  using assms
  by (simp add: bank_group_def bank_tx_def Let_def map_of_assoc_set split: option.splits)

lemma foldl_max_Max:
  "bs \<noteq> [] \<Longrightarrow> foldl max (a::rat) bs = max a (Max (set bs))"
proof (induction bs arbitrary: a)
  case Nil
  then show ?case by simp
next
  case (Cons b bs)
  show ?case
  proof (cases "bs = []")
    case True
    then show ?thesis by simp
  next
    case False
    with Cons.IH [of "max a b"] show ?thesis
      by (simp add: max.assoc)
  qed
qed

lemma bank_fold_invariant:
  assumes "\<forall>p \<in> set ps. br_bank (fst p) \<notin> set proto_names"
  shows "\<exists>A. foldM (bank_group E) [] (map (\<lambda>p. bank_tx E (fst p) (snd p)) ps) = Inr A
     \<and> (\<forall>k. (key_balances k ps = [] \<longrightarrow> map_of A k = None)
          \<and> (key_balances k ps \<noteq> [] \<longrightarrow>
               (\<exists>kvs txs. map_of A k = Some (JObj kvs)
                  \<and> getq (JObj kvs) ''transactions'' = JArr txs
                  \<and> ((\<forall>b \<in> set (key_balances k ps). is_fin b) \<longrightarrow>
                       getq (JObj kvs) ''currentBalance''
                         = JNum (Fin (foldl max 0 (map fin_of (key_balances k ps))))))))"
  using assms
proof (induction ps rule: rev_induct)
  case Nil
  show ?case by (simp add: key_balances_def)
next
  case (snoc p ps)
  then obtain A where A: "foldM (bank_group E) [] (map (\<lambda>p. bank_tx E (fst p) (snd p)) ps) = Inr A"
      "\<And>k. key_balances k ps = [] \<Longrightarrow> map_of A k = None"
      "\<And>k. key_balances k ps \<noteq> [] \<Longrightarrow>
         \<exists>kvs txs. map_of A k = Some (JObj kvs)
            \<and> getq (JObj kvs) ''transactions'' = JArr txs
            \<and> ((\<forall>b \<in> set (key_balances k ps). is_fin b) \<longrightarrow>
                 getq (JObj kvs) ''currentBalance''
                   = JNum (Fin (foldl max 0 (map fin_of (key_balances k ps)))))"
    by auto
  let ?key = "br_bank (fst p)"
  let ?b = "parseFloat (bt_balance (snd p))"
  from snoc.prems have np: "?key \<notin> set proto_names" by simp
  have step: "foldM (bank_group E) [] (map (\<lambda>p. bank_tx E (fst p) (snd p)) (ps @ [p]))
      = bank_group E A (bank_tx E (fst p) (snd p))"
    using A(1) by (simp add: foldM_snoc)
  have other: "\<And>k. k \<noteq> ?key \<Longrightarrow> key_balances k (ps @ [p]) = key_balances k ps"
    by (simp add: key_balances_def)
  have kb: "key_balances ?key (ps @ [p]) = key_balances ?key ps @ [?b]"
    by (simp add: key_balances_def)
  have "\<exists>A' kvs txs. bank_group E A (bank_tx E (fst p) (snd p)) = Inr A'
      \<and> map_of A' ?key = Some (JObj kvs)
      \<and> getq (JObj kvs) ''transactions'' = JArr txs
      \<and> ((\<forall>b \<in> set (key_balances ?key ps @ [?b]). is_fin b) \<longrightarrow>
            getq (JObj kvs) ''currentBalance''
              = JNum (Fin (foldl max 0 (map fin_of (key_balances ?key ps @ [?b])))))
      \<and> (\<forall>k'. k' \<noteq> ?key \<longrightarrow> map_of A' k' = map_of A k')"
  proof (cases "key_balances ?key ps = []")
    case True
    from A(2) [OF True] have "map_of A ?key = None" .
    from bank_group_fresh [OF this np, of E "snd p"]
    obtain A' kvs where f: "bank_group E A (bank_tx E (fst p) (snd p)) = Inr A'"
        "map_of A' ?key = Some (JObj kvs)"
        "getq (JObj kvs) ''transactions'' = JArr [bank_tx E (fst p) (snd p)]"
        "getq (JObj kvs) ''currentBalance''
           = (if jgt ?b (Fin 0) then JNum ?b else JNum (Fin 0))"
        "\<forall>k'. k' \<noteq> ?key \<longrightarrow> map_of A' k' = map_of A k'"
      by blast
    have "is_fin ?b \<longrightarrow> getq (JObj kvs) ''currentBalance'' = JNum (Fin (max 0 (fin_of ?b)))"
      using f(4) by (cases ?b) (auto simp: max_def)
    with f True show ?thesis by auto
  next
    case False
    from A(3) [OF False]
    obtain kvs0 txs0 where old: "map_of A ?key = Some (JObj kvs0)"
        "getq (JObj kvs0) ''transactions'' = JArr txs0"
        "(\<forall>b \<in> set (key_balances ?key ps). is_fin b) \<longrightarrow>
            getq (JObj kvs0) ''currentBalance''
              = JNum (Fin (foldl max 0 (map fin_of (key_balances ?key ps))))"
      by blast
    from bank_group_seen [OF old(1) old(2), of E "snd p"]
    obtain A' kvs where f: "bank_group E A (bank_tx E (fst p) (snd p)) = Inr A'"
        "map_of A' ?key = Some (JObj kvs)"
        "getq (JObj kvs) ''transactions'' = JArr (txs0 @ [bank_tx E (fst p) (snd p)])"
        "getq (JObj kvs) ''currentBalance''
           = (if js_gt E (JNum ?b) (getq (JObj kvs0) ''currentBalance'') then JNum ?b
              else getq (JObj kvs0) ''currentBalance'')"
        "\<forall>k'. k' \<noteq> ?key \<longrightarrow> map_of A' k' = map_of A k'"
      by blast
    have "(\<forall>b \<in> set (key_balances ?key ps @ [?b]). is_fin b) \<longrightarrow>
            getq (JObj kvs) ''currentBalance''
              = JNum (Fin (foldl max 0 (map fin_of (key_balances ?key ps @ [?b]))))"
    proof
      assume fin: "\<forall>b \<in> set (key_balances ?key ps @ [?b]). is_fin b"
      then obtain q where q: "?b = Fin q" by (cases ?b) auto
      from fin old(3) have o: "getq (JObj kvs0) ''currentBalance''
          = JNum (Fin (foldl max 0 (map fin_of (key_balances ?key ps))))" by simp
      show "getq (JObj kvs) ''currentBalance''
          = JNum (Fin (foldl max 0 (map fin_of (key_balances ?key ps @ [?b]))))"
        unfolding f(4) o q by (simp add: js_gt_def max_def)
    qed
    with f show ?thesis by blast
  qed
  then obtain A' kvs txs where n: "bank_group E A (bank_tx E (fst p) (snd p)) = Inr A'"
      "map_of A' ?key = Some (JObj kvs)"
      "getq (JObj kvs) ''transactions'' = JArr txs"
      "(\<forall>b \<in> set (key_balances ?key ps @ [?b]). is_fin b) \<longrightarrow>
            getq (JObj kvs) ''currentBalance''
              = JNum (Fin (foldl max 0 (map fin_of (key_balances ?key ps @ [?b]))))"
      "\<And>k'. k' \<noteq> ?key \<Longrightarrow> map_of A' k' = map_of A k'"
    by blast
  have "\<forall>k. (key_balances k (ps @ [p]) = [] \<longrightarrow> map_of A' k = None)
          \<and> (key_balances k (ps @ [p]) \<noteq> [] \<longrightarrow>
               (\<exists>kvs txs. map_of A' k = Some (JObj kvs)
                  \<and> getq (JObj kvs) ''transactions'' = JArr txs
                  \<and> ((\<forall>b \<in> set (key_balances k (ps @ [p])). is_fin b) \<longrightarrow>
                       getq (JObj kvs) ''currentBalance''
                         = JNum (Fin (foldl max 0 (map fin_of (key_balances k (ps @ [p]))))))))"
  proof
    fix k
    show "(key_balances k (ps @ [p]) = [] \<longrightarrow> map_of A' k = None)
          \<and> (key_balances k (ps @ [p]) \<noteq> [] \<longrightarrow>
               (\<exists>kvs txs. map_of A' k = Some (JObj kvs)
                  \<and> getq (JObj kvs) ''transactions'' = JArr txs
                  \<and> ((\<forall>b \<in> set (key_balances k (ps @ [p])). is_fin b) \<longrightarrow>
                       getq (JObj kvs) ''currentBalance''
                         = JNum (Fin (foldl max 0 (map fin_of (key_balances k (ps @ [p]))))))))"
    proof (cases "k = ?key")
      case True
      with n(2,3,4) show ?thesis unfolding True kb by blast
    next
      case False
      with n(5) [OF False] other [OF False] A(2) [of k] A(3) [of k] show ?thesis by auto
    qed
  qed
  with n(1) show ?case unfolding step by blast
qed

lemma bank_balances_pairs: "bank_balances k rs = key_balances k (bank_pairs rs)"
  by (induction rs) (simp_all add: bank_balances_def key_balances_def bank_pairs_def comp_def
      filter_map)

lemma bank_pairs_rec: "p \<in> set (bank_pairs rs) \<Longrightarrow> fst p \<in> set rs"
  by (auto simp: bank_pairs_def)

text \<open>
  What the code computes as \<^verbatim>\<open>currentBalance\<close>: for a well-formed bank payload whose bank
  names are not names of members of \<^verbatim>\<open>Object.prototype\<close>, and a bank with at least one
  transaction, all of whose balances are finite, it is the larger of 0 and the maximum
  balance.
\<close>

lemma bank_currentBalance_floored_max:
  assumes "\<forall>r \<in> set rs. br_bank r \<notin> set proto_names"
    and "bank_balances k rs \<noteq> []"
    and "\<forall>b \<in> set (bank_balances k rs). is_fin b"
  shows "at_path [''banks'', k, ''currentBalance''] (processBankTransactions E (enc_bank_payload rs))
     = Inr (JNum (Fin (max 0 (Max (set (map fin_of (bank_balances k rs)))))))"
proof -
  from assms(1) have "\<forall>p \<in> set (bank_pairs rs). br_bank (fst p) \<notin> set proto_names"
    using bank_pairs_rec by blast
  from bank_fold_invariant [OF this, of E] assms(2,3)
  obtain A kvs where kvs:
      "foldM (bank_group E) [] (map (\<lambda>p. bank_tx E (fst p) (snd p)) (bank_pairs rs)) = Inr A"
      "map_of A k = Some (JObj kvs)"
      "getq (JObj kvs) ''currentBalance''
         = JNum (Fin (foldl max 0 (map fin_of (bank_balances k rs))))"
    unfolding bank_balances_pairs by blast
  from assms(2) have "map fin_of (bank_balances k rs) \<noteq> []" by simp
  from foldl_max_Max [OF this, of 0] kvs(3)
  have "getq (JObj kvs) ''currentBalance''
      = JNum (Fin (max 0 (Max (set (map fin_of (bank_balances k rs))))))"
    by simp
  then show ?thesis
    using kvs(1,2) by (simp add: processBank_enc del: getq.simps) (simp add: kvs(2))
qed

text \<open>
  Given no payload at all, or an empty object, each of the five normalizers returns its
  zeroed record with a reason string.
\<close>

lemma normalizers_absent_container:
  "processNetWorthData E JUndefined = Inr (JObj
      [(''totalNetWorth'', JNum (Fin 0)), (''currency'', JStr ''INR''), (''assets'', JArr []),
       (''error'', JStr ''No net worth data available'')])"
  "processCreditData E JUndefined = Inr (JObj
      [(''creditScore'', JNull), (''accounts'', JArr []),
       (''error'', JStr ''No credit data available'')])"
  "processEPFData JUndefined = Inr (JObj
      [(''totalBalance'', JNum (Fin 0)), (''employeeShare'', JNum (Fin 0)),
       (''employerShare'', JNum (Fin 0)), (''error'', JStr ''No EPF data available'')])"
  "processMFTransactions E JUndefined = Inr (JObj
      [(''transactions'', JArr []), (''schemes'', JObj []),
       (''error'', JStr ''No transaction data available'')])"
  "processBankTransactions E JUndefined = Inr (JObj
      [(''transactions'', JArr []), (''banks'', JObj []),
       (''error'', JStr ''No bank transaction data available'')])"
  by (simp_all add: norm_defs)

lemma normalizers_empty_object:
  "processNetWorthData E (JObj []) = processNetWorthData E JUndefined"
  "processCreditData E (JObj []) = processCreditData E JUndefined"
  "processEPFData (JObj []) = processEPFData JUndefined"
  "processMFTransactions E (JObj []) = processMFTransactions E JUndefined"
  "processBankTransactions E (JObj []) = processBankTransactions E JUndefined"
  by (simp_all add: norm_defs proto_eval)

text \<open>
  In the exact arithmetic of the model, where addition is associative, a running total is
  the sum of the purchases minus the sum of the other tuples, and a number added \<open>N\<close>
  times to 0 is \<open>N\<close> times the number. Neither equation is claimed of the code's doubles,
  whose additions round: there only the running totals themselves are what the code
  computes.
\<close>

lemma running_exact:
  "running f ts = Fin (buy_sum f ts - sell_sum f ts)"
proof (induction ts rule: rev_induct)
  case Nil
  show ?case by (simp add: running_def buy_sum_def sell_sum_def)
next
  case (snoc t ts)
  then show ?case
    by (simp add: running_snoc buy_sum_def sell_sum_def jsub_def)
qed

lemma repeated_add_exact:
  "foldl (\<lambda>sum x. jadd sum (Fin k)) (Fin a) xs = Fin (a + of_nat (length xs) * k)"
  by (induction xs arbitrary: a) (simp_all add: algebra_simps)

subsection \<open>Normalizers: claims\<close>

text \<open>
  C3 (the code departs from the claim): the normalizers do raise on missing optional
  fields. A scheme record or a bank record without its \<^verbatim>\<open>txns\<close> list makes
  \<^verbatim>\<open>scheme.txns.forEach\<close> raise a \<^verbatim>\<open>TypeError\<close>, and a credit report without
  \<^verbatim>\<open>creditReportData\<close> makes \<^verbatim>\<open>creditData.score\<close> raise one. Elsewhere the same functions
  read optional fields with \<^verbatim>\<open>?.\<close> and \<^verbatim>\<open>|| []\<close>; these reads lack it.
\<close>

theorem normalizers_raise_on_missing_fields:
  "processMFTransactions E
     (JObj [(''mfTransactions'', JArr [JObj [(''isin'', JStr ''INF123L01234'')]])])
     = Inl (TypeError ''forEach'')
   \<and> processBankTransactions E
     (JObj [(''bankTransactions'', JArr [JObj [(''bank'', JStr ''HDFC'')]])])
     = Inl (TypeError ''forEach'')
   \<and> processCreditData E (JObj [(''creditReports'', JArr [JObj []])])
     = Inl (TypeError ''score'')"
  by (simp add: norm_defs proto_eval)

theorem normalizers_raise_on_missing_fields_witness:
  "processMFTransactions null_engine
     (JObj [(''mfTransactions'', JArr [JObj [(''isin'', JStr ''INF123L01234'')]])])
     = Inl (TypeError ''forEach'')
   \<and> processBankTransactions null_engine
     (JObj [(''bankTransactions'', JArr [JObj [(''bank'', JStr ''HDFC'')]])])
     = Inl (TypeError ''forEach'')
   \<and> processCreditData null_engine (JObj [(''creditReports'', JArr [JObj []])])
     = Inl (TypeError ''score'')"
  using normalizers_raise_on_missing_fields [of null_engine] by simp

text \<open>
  C4 (the code departs from the claim): for a bank whose transactions all have a negative
  balance, \<^verbatim>\<open>currentBalance\<close> is not the maximum of the balances. The running maximum
  starts at 0, so with balances \<open>-100.50\<close> and \<open>-250\<close> the result is 0, where the maximum
  is \<open>-100.50\<close>.
\<close>

theorem bank_currentBalance_all_negative:
  "at_path [''banks'', ''HDFC'', ''currentBalance'']
     (processBankTransactions E
       (JObj [(''bankTransactions'', JArr [JObj [(''bank'', JStr ''HDFC''),
          (''txns'', JArr
             [JArr [JStr ''500'', JStr ''ATM WDL'', JStr ''2024-07-01'', JNum (Fin 2),
                JStr ''CARD_PAYMENT'', JStr ''-100.50''],
              JArr [JStr ''150'', JStr ''ATM WDL'', JStr ''2024-07-02'', JNum (Fin 2),
                JStr ''CARD_PAYMENT'', JStr ''-250'']])]])]))
     = Inr (JNum (Fin 0))
   \<and> parseFloat (JStr ''-100.50'') = Fin (- (201 / 2))
   \<and> parseFloat (JStr ''-250'') = Fin (- 250)
   \<and> max (- (201 / 2)) (- 250 :: rat) = - (201 / 2)"
  by (simp add: norm_defs bank_group_def js_add_def js_gt_def getTransactionType_def Let_def
      nat_to_string.simps parse_defs proto_eval)

theorem bank_currentBalance_all_negative_witness:
  "at_path [''banks'', ''HDFC'', ''currentBalance'']
     (processBankTransactions null_engine
       (JObj [(''bankTransactions'', JArr [JObj [(''bank'', JStr ''HDFC''),
          (''txns'', JArr
             [JArr [JStr ''500'', JStr ''ATM WDL'', JStr ''2024-07-01'', JNum (Fin 2),
                JStr ''CARD_PAYMENT'', JStr ''-100.50''],
              JArr [JStr ''150'', JStr ''ATM WDL'', JStr ''2024-07-02'', JNum (Fin 2),
                JStr ''CARD_PAYMENT'', JStr ''-250'']])]])]))
     = Inr (JNum (Fin 0))"
  using bank_currentBalance_all_negative [of null_engine] by simp




text \<open>
  C8 (as stated, refuted): a payload with a non-empty \<^verbatim>\<open>uanAccounts\<close> list need not return
  an employer share at all: for \<^verbatim>\<open>{uanAccounts: [{}]}\<close> the first account has no
  \<^verbatim>\<open>rawDetails\<close>, and \<^verbatim>\<open>epfData.overall_pf_balance\<close> raises. And the share is not a sum
  over all establishment records: only those of \<^verbatim>\<open>uanAccounts[0]\<close> are read, so two
  accounts with one record each, of balances 1000 and 500, give 1000.
\<close>

theorem processEPFData_missing_rawDetails_counterexample:
  "getq (JObj [(''uanAccounts'', JArr [JObj []])]) ''uanAccounts'' = JArr [JObj []]
   \<and> processEPFData (JObj [(''uanAccounts'', JArr [JObj []])])
     = Inl (TypeError ''overall_pf_balance'')
   \<and> at_path [''employerShare'']
       (processEPFData (JObj [(''uanAccounts'', JArr
          [JObj [(''rawDetails'', JObj [(''est_details'', JArr
             [JObj [(''pf_balance'', JObj [(''employer_share'',
                JObj [(''balance'', JNum (Fin 1000))])])]])])],
           JObj [(''rawDetails'', JObj [(''est_details'', JArr
             [JObj [(''pf_balance'', JObj [(''employer_share'',
                JObj [(''balance'', JNum (Fin 500))])])]])])]])]))
     = Inr (JNum (Fin 1000))"
  by (simp add: processEPFData_def employer_bal_def num_or_def get_def proto_eval)

text \<open>
  C8 (amended): for a retirement-fund payload with a non-empty \<^verbatim>\<open>uanAccounts\<close> list whose
  first account has its \<^verbatim>\<open>rawDetails\<close>, \<^verbatim>\<open>employerShare\<close> is what results from 0 by
  adding, in list order, one contribution for each establishment record of that first
  account. A record's contribution is its employer-share balance read with
  \<^verbatim>\<open>parseFloat\<close>: the number itself when the balance is a number, the number written when
  it is the decimal string of a natural number below \<open>2^53\<close>, and 0 when the balance is
  absent or \<^verbatim>\<open>null\<close>. With no record (an empty or absent list) the share is 0, and with
  \<open>N\<close> records contributing \<open>k\<close> each it is \<open>k\<close> added \<open>N\<close> times to 0.
\<close>

theorem processEPFData_employerShare_fold:
  assumes "getq response ''uanAccounts'' = JArr (account # others)"
    and "\<not> nullish (getq account ''rawDetails'')"
  shows "(getq (getq account ''rawDetails'') ''est_details'' = JArr ests \<longrightarrow>
            at_path [''employerShare''] (processEPFData response)
              = Inr (JNum (foldl (\<lambda>sum est. jadd sum (employer_bal est)) (Fin 0) ests)))
       \<and> (getq (getq account ''rawDetails'') ''est_details'' = JArr [] \<longrightarrow>
            at_path [''employerShare''] (processEPFData response) = Inr (JNum (Fin 0)))
       \<and> (\<not> is_array (getq (getq account ''rawDetails'') ''est_details'') \<longrightarrow>
            at_path [''employerShare''] (processEPFData response) = Inr (JNum (Fin 0)))
       \<and> (getq (getq account ''rawDetails'') ''est_details'' = JArr ests \<longrightarrow>
            (\<forall>est \<in> set ests. employer_bal est = k) \<longrightarrow>
            at_path [''employerShare''] (processEPFData response)
              = Inr (JNum (foldl (\<lambda>sum est. jadd sum k) (Fin 0) ests)))
       \<and> (\<forall>est. getq (getq (getq est ''pf_balance'') ''employer_share'') ''balance'' = JUndefined
                \<or> getq (getq (getq est ''pf_balance'') ''employer_share'') ''balance'' = JNull
              \<longrightarrow> employer_bal est = Fin 0)
       \<and> (\<forall>est b. getq (getq (getq est ''pf_balance'') ''employer_share'') ''balance''
                = JNum (Fin b) \<longrightarrow> employer_bal est = Fin b)
       \<and> (\<forall>est n. n < 2 ^ 53 \<longrightarrow>
              getq (getq (getq est ''pf_balance'') ''employer_share'') ''balance''
                = JStr (nat_to_string n) \<longrightarrow> employer_bal est = Fin (of_nat n))"
proof -
  let ?details = "getq (getq account ''rawDetails'') ''est_details''"
  have t: "truthy response"
    using assms(1) truthy_getq_imp_truthy [of response "''uanAccounts''"] by simp
  have a: "\<not> nullish account" using assms(2) by (cases account) auto
  have e: "at_path [''employerShare''] (processEPFData response)
      = Inr (JNum (if is_array ?details
                   then foldl (\<lambda>sum est. jadd sum (employer_bal est)) (Fin 0) (the_elems ?details)
                   else Fin 0))"
    using t a assms by (simp add: processEPFData_def get_def Let_def)
  have 1: "?details = JArr ests \<longrightarrow>
            at_path [''employerShare''] (processEPFData response)
              = Inr (JNum (foldl (\<lambda>sum est. jadd sum (employer_bal est)) (Fin 0) ests))"
    using e by simp
  have 2: "?details = JArr [] \<longrightarrow>
            at_path [''employerShare''] (processEPFData response) = Inr (JNum (Fin 0))"
    using e by simp
  have 3: "\<not> is_array ?details \<longrightarrow>
            at_path [''employerShare''] (processEPFData response) = Inr (JNum (Fin 0))"
    using e by simp
  have 4: "?details = JArr ests \<longrightarrow>
            (\<forall>est \<in> set ests. employer_bal est = k) \<longrightarrow>
            at_path [''employerShare''] (processEPFData response)
              = Inr (JNum (foldl (\<lambda>sum est. jadd sum k) (Fin 0) ests))"
  proof (intro impI)
    assume d: "?details = JArr ests" and k: "\<forall>est \<in> set ests. employer_bal est = k"
    have "\<And>a. \<forall>est \<in> set ests. employer_bal est = k \<Longrightarrow>
        foldl (\<lambda>sum est. jadd sum (employer_bal est)) a ests
          = foldl (\<lambda>sum est. jadd sum k) a ests"
      by (induction ests) simp_all
    with k 1 d show "at_path [''employerShare''] (processEPFData response)
              = Inr (JNum (foldl (\<lambda>sum est. jadd sum k) (Fin 0) ests))"
      by simp
  qed
  have 5: "\<forall>est. getq (getq (getq est ''pf_balance'') ''employer_share'') ''balance'' = JUndefined
                \<or> getq (getq (getq est ''pf_balance'') ''employer_share'') ''balance'' = JNull
              \<longrightarrow> employer_bal est = Fin 0"
    by (auto simp: employer_bal_def num_or_def)
  have 6: "\<forall>est b. getq (getq (getq est ''pf_balance'') ''employer_share'') ''balance''
                = JNum (Fin b) \<longrightarrow> employer_bal est = Fin b"
    by (simp add: employer_bal_def num_or_def)
  have 7: "\<forall>est n. n < 2 ^ 53 \<longrightarrow>
              getq (getq (getq est ''pf_balance'') ''employer_share'') ''balance''
                = JStr (nat_to_string n) \<longrightarrow> employer_bal est = Fin (of_nat n)"
    by (simp add: employer_bal_def num_or_def parseFloat_nat_to_string
        del: parseFloat.simps)
  from 1 2 3 4 5 6 7 show ?thesis by blast
qed

theorem processEPFData_employerShare_fold_witness:
  "getq (JObj [(''uanAccounts'', JArr [JObj [(''rawDetails'', JObj
        [(''est_details'', JArr
           [JObj [(''est_name'', JStr ''A''),
              (''pf_balance'', JObj [(''employer_share'', JObj [(''balance'', JStr ''1000'')])])],
            JObj [(''est_name'', JStr ''B''), (''pf_balance'', JObj [])],
            JObj [(''est_name'', JStr ''C''),
              (''pf_balance'', JObj [(''employer_share'', JObj [(''balance'', JNum (Fin 250))])])]]),
         (''overall_pf_balance'', JObj [(''current_pf_balance'', JStr ''250000'')])])]])])
      ''uanAccounts''
     = JArr [JObj [(''rawDetails'', JObj
        [(''est_details'', JArr
           [JObj [(''est_name'', JStr ''A''),
              (''pf_balance'', JObj [(''employer_share'', JObj [(''balance'', JStr ''1000'')])])],
            JObj [(''est_name'', JStr ''B''), (''pf_balance'', JObj [])],
            JObj [(''est_name'', JStr ''C''),
              (''pf_balance'', JObj [(''employer_share'', JObj [(''balance'', JNum (Fin 250))])])]]),
         (''overall_pf_balance'', JObj [(''current_pf_balance'', JStr ''250000'')])])]]
   \<and> at_path [''employerShare'']
       (processEPFData (JObj [(''uanAccounts'', JArr [JObj [(''rawDetails'', JObj
        [(''est_details'', JArr
           [JObj [(''est_name'', JStr ''A''),
              (''pf_balance'', JObj [(''employer_share'', JObj [(''balance'', JStr ''1000'')])])],
            JObj [(''est_name'', JStr ''B''), (''pf_balance'', JObj [])],
            JObj [(''est_name'', JStr ''C''),
              (''pf_balance'', JObj [(''employer_share'', JObj [(''balance'', JNum (Fin 250))])])]]),
         (''overall_pf_balance'', JObj [(''current_pf_balance'', JStr ''250000'')])])]])]))
     = Inr (JNum (Fin 1250))
   \<and> at_path [''employerShare'']
       (processEPFData (JObj [(''uanAccounts'', JArr [JObj [(''rawDetails'', JObj
        [(''est_details'', JArr []),
         (''overall_pf_balance'', JObj [(''current_pf_balance'', JStr ''250000'')])])]])]))
     = Inr (JNum (Fin 0))
   \<and> at_path [''employerShare'']
       (processEPFData (JObj [(''uanAccounts'', JArr [JObj [(''rawDetails'', JObj
        [(''est_details'', JArr
           [JObj [(''pf_balance'', JObj [(''employer_share'', JObj [(''balance'', JStr ''500'')])])],
            JObj [(''pf_balance'', JObj [(''employer_share'', JObj [(''balance'', JStr ''500'')])])],
            JObj [(''pf_balance'', JObj [(''employer_share'', JObj [(''balance'', JStr ''500'')])])]]),
         (''overall_pf_balance'', JObj [])])]])]))
     = Inr (JNum (Fin (3 * 500)))
   \<and> at_path [''employerShare'']
       (processEPFData (JObj [(''uanAccounts'', JArr [JObj [(''rawDetails'', JObj
        [(''overall_pf_balance'', JObj
           [(''current_pf_balance'', JStr ''250000''),
            (''employee_share_total'', JObj [(''balance'', JStr ''125000'')]),
            (''employer_share_total'', JObj [(''balance'', JStr ''125000'')])])])]])]))
     = Inr (JNum (Fin 0))"
  using
    processEPFData_employerShare_fold [of
      "JObj [(''uanAccounts'', JArr [JObj [(''rawDetails'', JObj
        [(''est_details'', JArr
           [JObj [(''est_name'', JStr ''A''),
              (''pf_balance'', JObj [(''employer_share'', JObj [(''balance'', JStr ''1000'')])])],
            JObj [(''est_name'', JStr ''B''), (''pf_balance'', JObj [])],
            JObj [(''est_name'', JStr ''C''),
              (''pf_balance'', JObj [(''employer_share'', JObj [(''balance'', JNum (Fin 250))])])]]),
         (''overall_pf_balance'', JObj [(''current_pf_balance'', JStr ''250000'')])])]])]"
      "JObj [(''rawDetails'', JObj
        [(''est_details'', JArr
           [JObj [(''est_name'', JStr ''A''),
              (''pf_balance'', JObj [(''employer_share'', JObj [(''balance'', JStr ''1000'')])])],
            JObj [(''est_name'', JStr ''B''), (''pf_balance'', JObj [])],
            JObj [(''est_name'', JStr ''C''),
              (''pf_balance'', JObj [(''employer_share'', JObj [(''balance'', JNum (Fin 250))])])]]),
         (''overall_pf_balance'', JObj [(''current_pf_balance'', JStr ''250000'')])])]"
      "[]"
      "[JObj [(''est_name'', JStr ''A''),
              (''pf_balance'', JObj [(''employer_share'', JObj [(''balance'', JStr ''1000'')])])],
            JObj [(''est_name'', JStr ''B''), (''pf_balance'', JObj [])],
            JObj [(''est_name'', JStr ''C''),
              (''pf_balance'', JObj [(''employer_share'', JObj [(''balance'', JNum (Fin 250))])])]]"
      "Fin 0"]
    processEPFData_employerShare_fold [of
      "JObj [(''uanAccounts'', JArr [JObj [(''rawDetails'', JObj
        [(''est_details'', JArr []),
         (''overall_pf_balance'', JObj [(''current_pf_balance'', JStr ''250000'')])])]])]"
      "JObj [(''rawDetails'', JObj
        [(''est_details'', JArr []),
         (''overall_pf_balance'', JObj [(''current_pf_balance'', JStr ''250000'')])])]"
      "[]" "[]" "Fin 0"]
    processEPFData_employerShare_fold [of
      "JObj [(''uanAccounts'', JArr [JObj [(''rawDetails'', JObj
        [(''est_details'', JArr
           [JObj [(''pf_balance'', JObj [(''employer_share'', JObj [(''balance'', JStr ''500'')])])],
            JObj [(''pf_balance'', JObj [(''employer_share'', JObj [(''balance'', JStr ''500'')])])],
            JObj [(''pf_balance'', JObj [(''employer_share'', JObj [(''balance'', JStr ''500'')])])]]),
         (''overall_pf_balance'', JObj [])])]])]"
      "JObj [(''rawDetails'', JObj
        [(''est_details'', JArr
           [JObj [(''pf_balance'', JObj [(''employer_share'', JObj [(''balance'', JStr ''500'')])])],
            JObj [(''pf_balance'', JObj [(''employer_share'', JObj [(''balance'', JStr ''500'')])])],
            JObj [(''pf_balance'', JObj [(''employer_share'', JObj [(''balance'', JStr ''500'')])])]]),
         (''overall_pf_balance'', JObj [])])]"
      "[]"
      "[JObj [(''pf_balance'', JObj [(''employer_share'', JObj [(''balance'', JStr ''500'')])])],
            JObj [(''pf_balance'', JObj [(''employer_share'', JObj [(''balance'', JStr ''500'')])])],
            JObj [(''pf_balance'', JObj [(''employer_share'', JObj [(''balance'', JStr ''500'')])])]]"
      "Fin 500"]
    processEPFData_employerShare_fold [of
      "JObj [(''uanAccounts'', JArr [JObj [(''rawDetails'', JObj
        [(''overall_pf_balance'', JObj
           [(''current_pf_balance'', JStr ''250000''),
            (''employee_share_total'', JObj [(''balance'', JStr ''125000'')]),
            (''employer_share_total'', JObj [(''balance'', JStr ''125000'')])])])]])]"
      "JObj [(''rawDetails'', JObj
        [(''overall_pf_balance'', JObj
           [(''current_pf_balance'', JStr ''250000''),
            (''employee_share_total'', JObj [(''balance'', JStr ''125000'')]),
            (''employer_share_total'', JObj [(''balance'', JStr ''125000'')])])])]"
      "[]" "[]" "Fin 0"]
  by (simp add: employer_bal_def num_or_def parse_defs proto_eval)

end
